theory Spec2Isabelle
  imports Main "HOL-Library.Sublist"
begin

section \<open>Direct S3 access to a Cloud Optimized GeoTIFF: the notebook as a program\<close>

text \<open>
  The source is the notebook
  \<^verbatim>\<open>how-tos/Earthdata_Cloud__Single_File__Direct_S3_Access_COG_Example.ipynb\<close>:
  a table of credential endpoints, the function \<^verbatim>\<open>get_temp_creds\<close>, and eight code cells
  run top to bottom. Every cell is embedded as a function on the notebook's state; an
  exception is a value, and the run stops at the first one. What the notebook delegates
  to the network and to its libraries (the HTTP transport, the JSON decoder, the raster
  reader, the plotting backend) is not code of the notebook: it is a parameter of the
  model, and every theorem holds for whatever these parameters do. The constructors
  \<^verbatim>\<open>boto3.Session\<close>, \<^verbatim>\<open>AWSSession\<close> and \<^verbatim>\<open>rio.Env\<close> are records of their arguments and
  do not raise. Entering an environment puts it over the ones already active and saves
  those in the object; leaving it restores them, and raises when no environment is
  active. The import cell and the echo of a cell's last expression are left out.
\<close>

subsection \<open>Python values and exceptions\<close>

datatype py_error =
    KeyError string
  | NameError string
  | TypeError
  | ValueError
  | IndexError
  | JSONDecodeError
  | Raised string

text \<open>
  \<open>Raised c\<close> is an exception of class \<open>c\<close> raised inside a delegated library or service
  (a connection error, a raster I/O error, a rendering error).
\<close>

datatype json =
    JNull
  | JBool bool
  | JInt int
  | JFloat string
  | JString string
  | JArray "json list"
  | JObject "(string \<times> json) list"

text \<open>
  Subscripting a decoded JSON value with a string key, \<^verbatim>\<open>v['k']\<close>: a dict looks the key
  up and raises \<^verbatim>\<open>KeyError\<close> when it is missing; every other JSON value raises
  \<^verbatim>\<open>TypeError\<close>.
\<close>

fun py_getitem :: "json \<Rightarrow> string \<Rightarrow> py_error + json" where
  "py_getitem (JObject kv) k =
     (case map_of kv k of None \<Rightarrow> Inl (KeyError k) | Some v \<Rightarrow> Inr v)"
| "py_getitem _ k = Inl TypeError"

subsection \<open>Labeled arrays\<close>

datatype 'v ndarray = Cell 'v | Axis "'v ndarray list"

fun has_shape :: "nat list \<Rightarrow> 'v ndarray \<Rightarrow> bool" where
  "has_shape [] (Cell v) = True"
| "has_shape (n # ns) (Axis xs) = (length xs = n \<and> (\<forall>x \<in> set xs. has_shape ns x))"
| "has_shape _ _ = False"

text \<open>Reading one cell of an array by its index along every axis.\<close>

fun cell_at :: "'v ndarray \<Rightarrow> nat list \<Rightarrow> 'v option" where
  "cell_at (Cell v) [] = Some v"
| "cell_at (Axis xs) (i # is) = (if i < length xs then cell_at (xs ! i) is else None)"
| "cell_at _ _ = None"

text \<open>Selecting index 0 along axis \<open>k\<close>, which removes that axis.\<close>

fun isel0 :: "nat \<Rightarrow> 'v ndarray \<Rightarrow> 'v ndarray option" where
  "isel0 0 (Axis (x # xs)) = Some x"
| "isel0 (Suc k) (Axis xs) = map_option Axis (those (map (isel0 k) xs))"
| "isel0 _ _ = None"

fun axis_of :: "string \<Rightarrow> string list \<Rightarrow> nat" where
  "axis_of d [] = 0"
| "axis_of d (n # ns) = (if n = d then 0 else Suc (axis_of d ns))"

record 'v dataarray =
  dims :: "(string \<times> nat) list"
  data :: "'v ndarray"
  coords :: "(string \<times> string list) list"

text \<open>
  \<open>dims\<close> lists the dimension names with their sizes in axis order; \<open>coords\<close> lists the
  coordinate variables attached to the array, each with the dimensions it runs along
  (their values play no role here).
\<close>

text \<open>
  Indexing the coordinates at one position of the dimension \<open>dim\<close>: a coordinate that
  does not run along \<open>dim\<close> is kept as it is; one that does loses that dimension, and
  with \<open>drop\<close> it is removed when no dimension is left to it (it would be a scalar).
\<close>

fun squeeze_coords ::
  "string \<Rightarrow> bool \<Rightarrow> (string \<times> string list) list \<Rightarrow> (string \<times> string list) list" where
  "squeeze_coords dim drp [] = []"
| "squeeze_coords dim drp ((n, ds) # cs) =
     (if dim \<in> set ds
      then (if drp \<and> removeAll dim ds = [] then squeeze_coords dim drp cs
            else (n, removeAll dim ds) # squeeze_coords dim drp cs)
      else (n, ds) # squeeze_coords dim drp cs)"

text \<open>
  Modelled from the spec: \<^verbatim>\<open>DataArray.squeeze(dim, drop)\<close> is a method of the array
  library, not of the notebook. The spec says it "removes a degenerate dimension by name,
  asserting it has size 1", "producing a 2-D array" from the 3-D one, and leaves every
  other case undefined. Here a dimension that is missing or whose size is not 1 is an
  exception (the assertion fails). The spec is silent on coordinates; they follow the
  library's indexing at position 0 of the dimension, as \<open>squeeze_coords\<close> has it.
\<close>

definition squeeze :: "string \<Rightarrow> bool \<Rightarrow> 'v dataarray \<Rightarrow> py_error + 'v dataarray" where
  "squeeze dim drp a =
     (case map_of (dims a) dim of
        None \<Rightarrow> Inl (KeyError dim)
      | Some n \<Rightarrow>
          if n \<noteq> 1 then Inl ValueError
          else
            (case isel0 (axis_of dim (map fst (dims a))) (data a) of
               None \<Rightarrow> Inl IndexError
             | Some d \<Rightarrow>
                 Inr (a\<lparr>dims := filter (\<lambda>p. fst p \<noteq> dim) (dims a),
                        data := d,
                        coords := squeeze_coords dim drp (coords a)\<rparr>)))"

subsection \<open>Library objects and the calls the notebook issues\<close>

record response =
  status_code :: nat
  body :: string

record boto3_session =
  aws_access_key_id :: json
  aws_secret_access_key :: json
  aws_session_token :: json
  region_name :: string

record rasterio_env =
  env_session :: boto3_session
  options :: "(string \<times> string) list"

text \<open>
  An entered \<^verbatim>\<open>rio.Env\<close> object: its own configuration, and the environments that were
  active when it was entered, which leaving it restores.
\<close>

record rio_env_object =
  env_config :: rasterio_env
  env_saved :: "rasterio_env list"

record 'v plot_request =
  plot_data :: "'v dataarray"
  x_dim :: string
  y_dim :: string
  cmap :: string
  aspect :: string

text \<open>
  Every library call of the notebook is recorded, in order, with the arguments the
  notebook passes. The two calls that go to the network carry their keyword arguments.
\<close>

datatype 'v event =
    HttpGet string "(string \<times> string) list"
  | SessionNew boto3_session
  | EnvEnter rasterio_env
  | RasterOpen string "(string \<times> string) list"
  | Squeeze string bool
  | PlotImage "'v plot_request"
  | EnvExit

text \<open>
  What the notebook delegates. \<open>send_get\<close> is the HTTP transport behind
  \<^verbatim>\<open>requests.get\<close>: it raises on a transport failure and otherwise returns the response,
  whatever its status code (the notebook never calls \<^verbatim>\<open>raise_for_status\<close>).
  \<open>json_loads\<close> is the JSON decoder behind \<^verbatim>\<open>Response.json()\<close>, \<open>None\<close> on a malformed
  text. \<open>cookie_path\<close> is the value of \<^verbatim>\<open>os.path.expanduser('~/cookies.txt')\<close>.
  \<open>read_raster\<close> is the remote read behind \<^verbatim>\<open>rioxarray.open_rasterio\<close>, which sees the
  active GDAL environments. \<open>render\<close> is the plotting backend. The services may answer
  differently each time: they see the calls issued so far.
\<close>

record 'v externals =
  send_get :: "'v event list \<Rightarrow> string \<Rightarrow> py_error + response"
  json_loads :: "string \<Rightarrow> json option"
  cookie_path :: string
  read_raster :: "'v event list \<Rightarrow> rasterio_env list \<Rightarrow> string \<Rightarrow> py_error + 'v dataarray"
  render :: "'v event list \<Rightarrow> 'v plot_request \<Rightarrow> py_error option"

subsection \<open>The notebook's state\<close>

text \<open>
  \<open>calls\<close> is the record of library calls. \<open>gdal_env\<close> is the process-wide GDAL/rasterio
  environment: the configurations entered and not yet left, the innermost first, empty
  when no environment is active. The other fields are the notebook's variables, \<open>None\<close>
  while unbound.
\<close>

record 'v nb_state =
  calls :: "'v event list"
  gdal_env :: "rasterio_env list"
  temp_creds_req :: "json option"
  session :: "boto3_session option"
  rio_env :: "rio_env_object option"
  s3_url :: "string option"
  da :: "'v dataarray option"
  da_red :: "'v dataarray option"

definition fresh_kernel :: "'v nb_state" where
  "fresh_kernel =
     \<lparr>calls = [], gdal_env = [], temp_creds_req = None, session = None,
      rio_env = None, s3_url = None, da = None, da_red = None\<rparr>"

type_synonym 'v cell = "'v nb_state \<Rightarrow> py_error option \<times> 'v nb_state"

subsection \<open>The credential fetcher\<close>

definition s3_cred_endpoint :: "(string \<times> string) list" where
  "s3_cred_endpoint =
     [(''podaac'', ''https://archive.podaac.earthdata.nasa.gov/s3credentials''),
      (''gesdisc'', ''https://data.gesdisc.earthdata.nasa.gov/s3credentials''),
      (''lpdaac'', ''https://data.lpdaac.earthdatacloud.nasa.gov/s3credentials''),
      (''ornldaac'', ''https://data.ornldaac.earthdata.nasa.gov/s3credentials''),
      (''ghrcdaac'', ''https://data.ghrc.earthdata.nasa.gov/s3credentials'')]"

text \<open>\<^verbatim>\<open>requests.get(url)\<close>: one GET, no keyword argument.\<close>

definition requests_get ::
  "'v externals \<Rightarrow> string \<Rightarrow> 'v nb_state \<Rightarrow> (py_error + response) \<times> 'v nb_state" where
  "requests_get ext url s =
     (send_get ext (calls s) url, s\<lparr>calls := calls s @ [HttpGet url []]\<rparr>)"

text \<open>\<^verbatim>\<open>Response.json()\<close>: decodes the body; the status code is not looked at.\<close>

definition response_json :: "'v externals \<Rightarrow> response \<Rightarrow> py_error + json" where
  "response_json ext r =
     (case json_loads ext (body r) of None \<Rightarrow> Inl JSONDecodeError | Some j \<Rightarrow> Inr j)"

text \<open>
  \<^verbatim>\<open>def get_temp_creds(provider): return requests.get(s3_cred_endpoint[provider]).json()\<close>
  The subscript is evaluated first, then the GET is issued, then the body is decoded.
\<close>

definition get_temp_creds ::
  "'v externals \<Rightarrow> string \<Rightarrow> 'v nb_state \<Rightarrow> (py_error + json) \<times> 'v nb_state" where
  "get_temp_creds ext provider s =
     (case map_of s3_cred_endpoint provider of
        None \<Rightarrow> (Inl (KeyError provider), s)
      | Some url \<Rightarrow>
          (case requests_get ext url s of
             (Inl e, s') \<Rightarrow> (Inl e, s')
           | (Inr r, s') \<Rightarrow> (response_json ext r, s')))"

subsection \<open>The cells\<close>

text \<open>\<^verbatim>\<open>temp_creds_req = get_temp_creds('lpdaac')\<close>\<close>

definition cell_creds :: "'v externals \<Rightarrow> 'v cell" where
  "cell_creds ext s =
     (case get_temp_creds ext ''lpdaac'' s of
        (Inl e, s') \<Rightarrow> (Some e, s')
      | (Inr j, s') \<Rightarrow> (None, s'\<lparr>temp_creds_req := Some j\<rparr>))"

text \<open>
  \<^verbatim>\<open>session = boto3.Session(aws_access_key_id=temp_creds_req['accessKeyId'],
          aws_secret_access_key=temp_creds_req['secretAccessKey'],
          aws_session_token=temp_creds_req['sessionToken'], region_name='us-west-2')\<close>
  The three subscripts are evaluated left to right before the constructor is called.
\<close>

definition cell_session :: "'v cell" where
  "cell_session s =
     (case temp_creds_req s of
        None \<Rightarrow> (Some (NameError ''temp_creds_req''), s)
      | Some c \<Rightarrow>
          (case py_getitem c ''accessKeyId'' of
             Inl e \<Rightarrow> (Some e, s)
           | Inr k \<Rightarrow>
               (case py_getitem c ''secretAccessKey'' of
                  Inl e \<Rightarrow> (Some e, s)
                | Inr sk \<Rightarrow>
                    (case py_getitem c ''sessionToken'' of
                       Inl e \<Rightarrow> (Some e, s)
                     | Inr tok \<Rightarrow>
                         (let se = \<lparr>aws_access_key_id = k, aws_secret_access_key = sk,
                                    aws_session_token = tok, region_name = ''us-west-2''\<rparr>
                          in (None, s\<lparr>calls := calls s @ [SessionNew se],
                                      session := Some se\<rparr>))))))"

text \<open>
  \<^verbatim>\<open>rio_env = rio.Env(AWSSession(session), GDAL_DISABLE_READDIR_ON_OPEN='TRUE',
          GDAL_HTTP_COOKIEFILE=os.path.expanduser('~/cookies.txt'),
          GDAL_HTTP_COOKIEJAR=os.path.expanduser('~/cookies.txt'))
  rio_env.__enter__()\<close>
  Entering sets the new configuration over the environments already active (there are
  some when an earlier run did not leave its own) and saves those in the object.
\<close>

definition cell_env :: "'v externals \<Rightarrow> 'v cell" where
  "cell_env ext s =
     (case session s of
        None \<Rightarrow> (Some (NameError ''session''), s)
      | Some se \<Rightarrow>
          (let e = \<lparr>env_session = se,
                    options = [(''GDAL_DISABLE_READDIR_ON_OPEN'', ''TRUE''),
                               (''GDAL_HTTP_COOKIEFILE'', cookie_path ext),
                               (''GDAL_HTTP_COOKIEJAR'', cookie_path ext)]\<rparr>
           in (None, s\<lparr>calls := calls s @ [EnvEnter e],
                       rio_env := Some \<lparr>env_config = e, env_saved = gdal_env s\<rparr>,
                       gdal_env := e # gdal_env s\<rparr>)))"

text \<open>\<^verbatim>\<open>s3_url = 's3://lp-prod-protected/HLSL30.020/...B04.tif'\<close>\<close>

definition red_band_url :: string where
  "red_band_url = ''s3://lp-prod-protected/HLSL30.020/HLS.L30.T11SQA.2021333T181532.v2.0/HLS.L30.T11SQA.2021333T181532.v2.0.B04.tif''"

definition cell_url :: "'v cell" where
  "cell_url s = (None, s\<lparr>s3_url := Some red_band_url\<rparr>)"

text \<open>\<^verbatim>\<open>da = rioxarray.open_rasterio(s3_url)\<close>\<close>

definition cell_open :: "'v externals \<Rightarrow> 'v cell" where
  "cell_open ext s =
     (case s3_url s of
        None \<Rightarrow> (Some (NameError ''s3_url''), s)
      | Some u \<Rightarrow>
          (let s' = s\<lparr>calls := calls s @ [RasterOpen u []]\<rparr>
           in case read_raster ext (calls s) (gdal_env s) u of
                Inl e \<Rightarrow> (Some e, s')
              | Inr a \<Rightarrow> (None, s'\<lparr>da := Some a\<rparr>)))"

text \<open>\<^verbatim>\<open>da_red = da.squeeze('band', drop=True)\<close>\<close>

definition cell_squeeze :: "'v cell" where
  "cell_squeeze s =
     (case da s of
        None \<Rightarrow> (Some (NameError ''da''), s)
      | Some a \<Rightarrow>
          (let s' = s\<lparr>calls := calls s @ [Squeeze ''band'' True]\<rparr>
           in case squeeze ''band'' True a of
                Inl e \<Rightarrow> (Some e, s')
              | Inr r \<Rightarrow> (None, s'\<lparr>da_red := Some r\<rparr>)))"

text \<open>\<^verbatim>\<open>da_red.hvplot.image(x='x', y='y', cmap='gray', aspect='equal')\<close>\<close>

definition cell_plot :: "'v externals \<Rightarrow> 'v cell" where
  "cell_plot ext s =
     (case da_red s of
        None \<Rightarrow> (Some (NameError ''da_red''), s)
      | Some a \<Rightarrow>
          (let rq = \<lparr>plot_data = a, x_dim = ''x'', y_dim = ''y'', cmap = ''gray'',
                     aspect = ''equal''\<rparr>
           in (render ext (calls s) rq, s\<lparr>calls := calls s @ [PlotImage rq]\<rparr>)))"

text \<open>
  \<^verbatim>\<open>rio_env.__exit__()\<close>
  Leaving deletes the active environment, raising \<^verbatim>\<open>EnvError\<close> when there is none, and
  restores the environments the object saved when it was entered.
\<close>

definition cell_exit :: "'v cell" where
  "cell_exit s =
     (case rio_env s of
        None \<Rightarrow> (Some (NameError ''rio_env''), s)
      | Some obj \<Rightarrow>
          (let s' = s\<lparr>calls := calls s @ [EnvExit]\<rparr>
           in if gdal_env s = [] then (Some (Raised ''EnvError''), s')
              else (None, s'\<lparr>gdal_env := env_saved obj\<rparr>)))"

subsection \<open>Running the notebook\<close>

text \<open>Cells run in order; the first exception ends the run and is its outcome.\<close>

fun run_cells :: "'v cell list \<Rightarrow> 'v cell" where
  "run_cells [] s = (None, s)"
| "run_cells (c # cs) s =
     (case c s of (Some e, s') \<Rightarrow> (Some e, s') | (None, s') \<Rightarrow> run_cells cs s')"

definition notebook :: "'v externals \<Rightarrow> 'v cell list" where
  "notebook ext =
     [cell_creds ext, cell_session, cell_env ext, cell_url, cell_open ext,
      cell_squeeze, cell_plot ext, cell_exit]"

definition workflow :: "'v externals \<Rightarrow> 'v cell" where
  "workflow ext = run_cells (notebook ext)"

text \<open>The calls a run adds to the record.\<close>

definition new_calls :: "'v nb_state \<Rightarrow> 'v nb_state \<Rightarrow> 'v event list" where
  "new_calls s s' = drop (length (calls s)) (calls s')"

datatype step =
    CredentialFetch
  | SessionBuild
  | EnvConfigure
  | RasterRead
  | DimReduce
  | Visualize
  | EnvRelease

definition all_steps :: "step list" where
  "all_steps =
     [CredentialFetch, SessionBuild, EnvConfigure, RasterRead, DimReduce, Visualize,
      EnvRelease]"

fun step_of :: "'v event \<Rightarrow> step" where
  "step_of (HttpGet u kw) = CredentialFetch"
| "step_of (SessionNew se) = SessionBuild"
| "step_of (EnvEnter e) = EnvConfigure"
| "step_of (RasterOpen u kw) = RasterRead"
| "step_of (Squeeze d b) = DimReduce"
| "step_of (PlotImage rq) = Visualize"
| "step_of EnvExit = EnvRelease"

subsection \<open>Assertions about runs\<close>

text \<open>What a cell adds to the record of calls.\<close>

definition emits :: "'v cell \<Rightarrow> step list \<Rightarrow> bool" where
  "emits c ks =
     (\<forall>s. \<exists>t. calls (snd (c s)) = calls s @ t \<and> prefix (map step_of t) ks
            \<and> (fst (c s) = None \<longrightarrow> map step_of t = ks))"

text \<open>
  A triple \<open>triple P c Q E\<close>: from a state where \<open>P\<close> holds, the cell \<open>c\<close> ends in a
  state where \<open>Q\<close> holds when it returns and in a state where \<open>E\<close> holds when it raises.
\<close>

definition triple ::
  "('v nb_state \<Rightarrow> bool) \<Rightarrow> 'v cell \<Rightarrow> ('v nb_state \<Rightarrow> bool) \<Rightarrow> ('v nb_state \<Rightarrow> bool) \<Rightarrow> bool" where
  "triple P c Q E = (\<forall>s. P s \<longrightarrow> (case c s of (None, s') \<Rightarrow> Q s' | (Some e, s') \<Rightarrow> E s'))"

text \<open>An invariant of the record of calls: every call added since \<open>s0\<close> is good.\<close>

definition added :: "('v event \<Rightarrow> bool) \<Rightarrow> 'v nb_state \<Rightarrow> 'v nb_state \<Rightarrow> bool" where
  "added g s0 s = (\<exists>t. calls s = calls s0 @ t \<and> list_all g t)"

text \<open>
  Two assertions for the scoped environment: no raster read has been issued since
  \<open>s0\<close>; and the environment of the object bound to \<open>rio_env\<close> is active over the
  environments of \<open>s0\<close>, which the object has saved.
\<close>

definition no_read_yet :: "'v nb_state \<Rightarrow> 'v nb_state \<Rightarrow> bool" where
  "no_read_yet s0 s =
     (added (\<lambda>ev. step_of ev \<noteq> RasterRead) s0 s \<and> gdal_env s = gdal_env s0)"

definition env_active :: "'v nb_state \<Rightarrow> 'v nb_state \<Rightarrow> bool" where
  "env_active s0 s =
     (\<exists>obj. rio_env s = Some obj \<and> env_saved obj = gdal_env s0
            \<and> gdal_env s = env_config obj # gdal_env s0)"


text \<open>
  A call passes no timeout: a network call has no keyword argument, and the environment
  sets the notebook's three options only.
\<close>

fun untimed :: "'v event \<Rightarrow> bool" where
  "untimed (HttpGet u kw) = (kw = [])"
| "untimed (RasterOpen u kw) = (kw = [])"
| "untimed (EnvEnter e) =
     (map fst (options e) =
        [''GDAL_DISABLE_READDIR_ON_OPEN'', ''GDAL_HTTP_COOKIEFILE'', ''GDAL_HTTP_COOKIEJAR''])"
| "untimed _ = True"

subsection \<open>A concrete run\<close>

text \<open>
  Concrete services for evaluating the model: an endpoint that answers the LP DAAC
  credential request with a credential object, a decoder that knows the two bodies used
  here, a raster of one band, two columns and three rows that can be read while an
  environment is active, and a backend that renders everything. \<open>denied_ext\<close> is the
  same with an endpoint that answers 401 with a JSON error body.
\<close>

definition demo_creds :: json where
  "demo_creds =
     JObject [(''accessKeyId'', JString ''ASIAEXAMPLE''),
              (''secretAccessKey'', JString ''wJalrEXAMPLEKEY''),
              (''sessionToken'', JString ''FwoGZXEXAMPLETOKEN''),
              (''expiration'', JString ''2022-03-22 18:15:32+00:00'')]"

definition demo_body :: string where
  "demo_body = ''{\"accessKeyId\": \"ASIAEXAMPLE\", \"secretAccessKey\": \"wJalrEXAMPLEKEY\", \"sessionToken\": \"FwoGZXEXAMPLETOKEN\", \"expiration\": \"2022-03-22 18:15:32+00:00\"}''"

definition denied_body :: string where
  "denied_body = ''{\"error\": \"access_denied\"}''"

definition demo_loads :: "string \<Rightarrow> json option" where
  "demo_loads t =
     (if t = demo_body then Some demo_creds
      else if t = denied_body then Some (JObject [(''error'', JString ''access_denied'')])
      else None)"

definition demo_array :: "int dataarray" where
  "demo_array =
     \<lparr>dims = [(''band'', 1), (''x'', 2), (''y'', 3)],
      data = Axis [Axis [Axis [Cell 11, Cell 12, Cell 13], Axis [Cell 21, Cell 22, Cell 23]]],
      coords = [(''band'', [''band'']), (''x'', [''x'']), (''y'', [''y'']),
                (''spatial_ref'', [])]\<rparr>"

definition lpdaac_url :: string where
  "lpdaac_url = ''https://data.lpdaac.earthdatacloud.nasa.gov/s3credentials''"

definition demo_ext :: "int externals" where
  "demo_ext =
     \<lparr>send_get = (\<lambda>h u. if u = lpdaac_url then Inr \<lparr>status_code = 200, body = demo_body\<rparr>
                          else Inl (Raised ''ConnectionError'')),
      json_loads = demo_loads,
      cookie_path = ''/home/jovyan/cookies.txt'',
      read_raster = (\<lambda>h es u. if es = [] then Inl (Raised ''RasterioIOError'')
                               else Inr demo_array),
      render = (\<lambda>h rq. None)\<rparr>"

definition denied_ext :: "int externals" where
  "denied_ext = demo_ext\<lparr>send_get := (\<lambda>h u. Inr \<lparr>status_code = 401, body = denied_body\<rparr>)\<rparr>"

text \<open>Three more failing services: a login page instead of JSON, an object that cannot
  be read, and a raster of two bands.\<close>

definition html_ext :: "int externals" where
  "html_ext =
     demo_ext\<lparr>send_get :=
       (\<lambda>h u. Inr \<lparr>status_code = 200, body = ''<html>Earthdata Login</html>''\<rparr>)\<rparr>"

definition unreadable_ext :: "int externals" where
  "unreadable_ext = demo_ext\<lparr>read_raster := (\<lambda>h e u. Inl (Raised ''RasterioIOError''))\<rparr>"

definition two_band_array :: "int dataarray" where
  "two_band_array =
     \<lparr>dims = [(''band'', 2), (''x'', 1), (''y'', 2)],
      data = Axis [Axis [Axis [Cell 1, Cell 2]], Axis [Axis [Cell 3, Cell 4]]],
      coords = [(''band'', [''band'']), (''x'', [''x'']), (''y'', [''y'']),
                (''spatial_ref'', [])]\<rparr>"

definition two_band_ext :: "int externals" where
  "two_band_ext = demo_ext\<lparr>read_raster := (\<lambda>h e u. Inr two_band_array)\<rparr>"

definition demo_session :: boto3_session where
  "demo_session =
     \<lparr>aws_access_key_id = JString ''ASIAEXAMPLE'',
      aws_secret_access_key = JString ''wJalrEXAMPLEKEY'',
      aws_session_token = JString ''FwoGZXEXAMPLETOKEN'',
      region_name = ''us-west-2''\<rparr>"

definition demo_env :: rasterio_env where
  "demo_env =
     \<lparr>env_session = demo_session,
      options = [(''GDAL_DISABLE_READDIR_ON_OPEN'', ''TRUE''),
                 (''GDAL_HTTP_COOKIEFILE'', ''/home/jovyan/cookies.txt''),
                 (''GDAL_HTTP_COOKIEJAR'', ''/home/jovyan/cookies.txt'')]\<rparr>"

definition demo_red :: "int dataarray" where
  "demo_red =
     \<lparr>dims = [(''x'', 2), (''y'', 3)],
      data = Axis [Axis [Cell 11, Cell 12, Cell 13], Axis [Cell 21, Cell 22, Cell 23]],
      coords = [(''x'', [''x'']), (''y'', [''y'']), (''spatial_ref'', [])]\<rparr>"

definition demo_plot :: "int plot_request" where
  "demo_plot =
     \<lparr>plot_data = demo_red, x_dim = ''x'', y_dim = ''y'', cmap = ''gray'',
      aspect = ''equal''\<rparr>"

text \<open>
  The reader's own layout: dimensions (band, y, x), with a coordinate \<open>wavelength\<close>
  along \<open>band\<close> besides the index coordinates; the services \<open>yx_ext\<close> return it. The
  backend of \<open>no_render_ext\<close> raises on every request. \<open>leaked_kernel\<close> is the state in
  which the run on \<open>unreadable_ext\<close> ends.
\<close>

definition yx_array :: "int dataarray" where
  "yx_array =
     \<lparr>dims = [(''band'', 1), (''y'', 3), (''x'', 2)],
      data = Axis [Axis [Axis [Cell 11, Cell 21], Axis [Cell 12, Cell 22],
                         Axis [Cell 13, Cell 23]]],
      coords = [(''band'', [''band'']), (''wavelength'', [''band'']), (''x'', [''x'']),
                (''y'', [''y'']), (''spatial_ref'', [])]\<rparr>"

definition yx_red :: "int dataarray" where
  "yx_red =
     \<lparr>dims = [(''y'', 3), (''x'', 2)],
      data = Axis [Axis [Cell 11, Cell 21], Axis [Cell 12, Cell 22], Axis [Cell 13, Cell 23]],
      coords = [(''x'', [''x'']), (''y'', [''y'']), (''spatial_ref'', [])]\<rparr>"



definition demo_env_object :: rio_env_object where
  "demo_env_object = \<lparr>env_config = demo_env, env_saved = []\<rparr>"

definition demo_calls :: "int event list" where
  "demo_calls =
     [HttpGet lpdaac_url [], SessionNew demo_session, EnvEnter demo_env,
      RasterOpen red_band_url [], Squeeze ''band'' True, PlotImage demo_plot, EnvExit]"

definition leaked_kernel :: "int nb_state" where
  "leaked_kernel =
     \<lparr>calls = take 4 demo_calls, gdal_env = [demo_env], temp_creds_req = Some demo_creds,
      session = Some demo_session, rio_env = Some demo_env_object,
      s3_url = Some red_band_url, da = None, da_red = None\<rparr>"

section \<open>Properties of the credential fetcher\<close>

lemma lookup_none:
  "provider \<notin> {''podaac'', ''gesdisc'', ''lpdaac'', ''ornldaac'', ''ghrcdaac''} \<Longrightarrow>
   map_of s3_cred_endpoint provider = None"
  by (simp add: s3_cred_endpoint_def)

lemma lookup_some:
  "provider \<in> {''podaac'', ''gesdisc'', ''lpdaac'', ''ornldaac'', ''ghrcdaac''} \<Longrightarrow>
   \<exists>url. map_of s3_cred_endpoint provider = Some url"
  by (auto simp: s3_cred_endpoint_def)

lemma lookup_lpdaac: "map_of s3_cred_endpoint ''lpdaac'' = Some lpdaac_url"
  by (simp add: s3_cred_endpoint_def lpdaac_url_def)

lemma get_temp_creds_state:
  "map_of s3_cred_endpoint provider = Some url \<Longrightarrow>
   snd (get_temp_creds ext provider s) = s\<lparr>calls := calls s @ [HttpGet url []]\<rparr>"
  by (simp add: get_temp_creds_def requests_get_def split: sum.split)

lemma get_temp_creds_result:
  "map_of s3_cred_endpoint provider = Some url \<Longrightarrow>
   fst (get_temp_creds ext provider s) =
     (case send_get ext (calls s) url of Inl e \<Rightarrow> Inl e | Inr r \<Rightarrow> response_json ext r)"
  by (simp add: get_temp_creds_def requests_get_def split: sum.split)

text \<open>
  Claim C10. For every provider string that is not one of the five keys,
  \<^verbatim>\<open>get_temp_creds\<close> raises \<^verbatim>\<open>KeyError\<close> for that string and leaves the whole state as
  it was: the lookup fails before the GET is issued, so the run adds no call to the
  record, whatever the services would have answered.
\<close>

theorem get_temp_creds_unknown_provider:
  assumes "provider \<notin> {''podaac'', ''gesdisc'', ''lpdaac'', ''ornldaac'', ''ghrcdaac''}"
  shows "get_temp_creds ext provider s = (Inl (KeyError provider), s)
         \<and> new_calls s (snd (get_temp_creds ext provider s)) = []"
  using lookup_none [OF assms] by (simp add: get_temp_creds_def new_calls_def)

theorem get_temp_creds_unknown_provider_witness:
  "get_temp_creds demo_ext ''nsidc'' fresh_kernel = (Inl (KeyError ''nsidc''), fresh_kernel)
   \<and> new_calls fresh_kernel (snd (get_temp_creds demo_ext ''nsidc'' fresh_kernel)) = []"
proof -
  have "''nsidc'' \<notin> {''podaac'', ''gesdisc'', ''lpdaac'', ''ornldaac'', ''ghrcdaac''}"
    by simp
  from get_temp_creds_unknown_provider [OF this] show ?thesis .
qed

text \<open>
  Claim C4. The endpoint table has exactly the five keys, with five different URLs.
  For each of these keys the fetcher issues one call, a GET to the URL the table gives
  for the key, and when the transport returns a response whose body decodes, the
  fetcher returns the decoded JSON value.
\<close>

theorem get_temp_creds_single_get:
  assumes "provider \<in> {''podaac'', ''gesdisc'', ''lpdaac'', ''ornldaac'', ''ghrcdaac''}"
  shows "map fst s3_cred_endpoint = [''podaac'', ''gesdisc'', ''lpdaac'', ''ornldaac'', ''ghrcdaac'']
         \<and> distinct (map snd s3_cred_endpoint)
         \<and> (\<exists>url. (provider, url) \<in> set s3_cred_endpoint
               \<and> new_calls s (snd (get_temp_creds ext provider s)) = [HttpGet url []]
               \<and> (\<forall>r j. send_get ext (calls s) url = Inr r \<longrightarrow> json_loads ext (body r) = Some j
                      \<longrightarrow> fst (get_temp_creds ext provider s) = Inr j))"
proof -
  from lookup_some [OF assms] obtain url where u: "map_of s3_cred_endpoint provider = Some url"
    by blast
  have "(provider, url) \<in> set s3_cred_endpoint"
    using u by (rule map_of_SomeD)
  moreover have "new_calls s (snd (get_temp_creds ext provider s)) = [HttpGet url []]"
    by (simp add: get_temp_creds_state [OF u] new_calls_def)
  moreover have "\<forall>r j. send_get ext (calls s) url = Inr r \<longrightarrow> json_loads ext (body r) = Some j
                      \<longrightarrow> fst (get_temp_creds ext provider s) = Inr j"
    by (simp add: get_temp_creds_result [OF u] response_json_def)
  moreover have "map fst s3_cred_endpoint = [''podaac'', ''gesdisc'', ''lpdaac'', ''ornldaac'', ''ghrcdaac'']"
    by (simp add: s3_cred_endpoint_def)
  moreover have "distinct (map snd s3_cred_endpoint)"
    by (simp add: s3_cred_endpoint_def)
  ultimately show ?thesis by blast
qed

lemma demo_get: "send_get demo_ext h lpdaac_url = Inr \<lparr>status_code = 200, body = demo_body\<rparr>"
  by (simp add: demo_ext_def)

lemma demo_loads_body: "json_loads demo_ext demo_body = Some demo_creds"
  by (simp add: demo_ext_def demo_loads_def)

theorem get_temp_creds_single_get_witness:
  "new_calls fresh_kernel (snd (get_temp_creds demo_ext ''lpdaac'' fresh_kernel)) = [HttpGet lpdaac_url []]
   \<and> fst (get_temp_creds demo_ext ''lpdaac'' fresh_kernel) = Inr demo_creds"
proof -
  from get_temp_creds_single_get [of "''lpdaac''" "fresh_kernel :: int nb_state" demo_ext]
  obtain url where u: "(''lpdaac'', url) \<in> set s3_cred_endpoint"
    and c: "new_calls fresh_kernel (snd (get_temp_creds demo_ext ''lpdaac'' fresh_kernel)) = [HttpGet url []]"
    and r: "\<forall>r j. send_get demo_ext (calls (fresh_kernel :: int nb_state)) url = Inr r \<longrightarrow> json_loads demo_ext (body r) = Some j
                      \<longrightarrow> fst (get_temp_creds demo_ext ''lpdaac'' fresh_kernel) = Inr j"
    by auto
  from u have url: "url = lpdaac_url"
    by (simp add: s3_cred_endpoint_def lpdaac_url_def)
  show ?thesis
    using c r demo_get demo_loads_body by (simp add: url)
qed

lemma endpoint_url_unique:
  "(p, url) \<in> set s3_cred_endpoint \<Longrightarrow> map_of s3_cred_endpoint p = Some url"
  by (rule map_of_is_SomeI) (simp_all add: s3_cred_endpoint_def)

text \<open>
  Claim C1, as stated, fails: the fetcher never looks at the status code. The endpoint
  of \<open>denied_ext\<close> answers 401 with a well-formed JSON body, and the fetcher returns the
  decoded body as if it were a credential object.
\<close>

theorem non_200_json_body_is_returned:
  "map_of s3_cred_endpoint ''lpdaac'' = Some lpdaac_url
   \<and> send_get denied_ext (calls (fresh_kernel :: int nb_state)) lpdaac_url
       = Inr \<lparr>status_code = 401, body = denied_body\<rparr>
   \<and> status_code \<lparr>status_code = 401, body = denied_body\<rparr> \<noteq> 200
   \<and> fst (get_temp_creds denied_ext ''lpdaac'' fresh_kernel)
       = Inr (JObject [(''error'', JString ''access_denied'')])"
  by (simp add: lookup_lpdaac get_temp_creds_result response_json_def denied_ext_def
      demo_ext_def demo_loads_def denied_body_def demo_body_def)

text \<open>
  Claim C1, amended. For each of the five keys: an exception of the transport is the
  fetcher's exception; a body that does not decode raises \<^verbatim>\<open>JSONDecodeError\<close>, whatever
  the status code; a body that decodes is returned, whatever the status code. In every
  case the state changes by one recorded GET and nothing else (no retry, nothing
  stored), and a second call issues a second GET (nothing cached).
\<close>

theorem get_temp_creds_errors_propagate:
  assumes "provider \<in> {''podaac'', ''gesdisc'', ''lpdaac'', ''ornldaac'', ''ghrcdaac''}"
  shows "\<exists>url. (provider, url) \<in> set s3_cred_endpoint
           \<and> (\<forall>e. send_get ext (calls s) url = Inl e
                  \<longrightarrow> fst (get_temp_creds ext provider s) = Inl e)
           \<and> (\<forall>r. send_get ext (calls s) url = Inr r \<longrightarrow> json_loads ext (body r) = None
                  \<longrightarrow> fst (get_temp_creds ext provider s) = Inl JSONDecodeError)
           \<and> (\<forall>r j. send_get ext (calls s) url = Inr r \<longrightarrow> json_loads ext (body r) = Some j
                  \<longrightarrow> fst (get_temp_creds ext provider s) = Inr j)
           \<and> snd (get_temp_creds ext provider s) = s\<lparr>calls := calls s @ [HttpGet url []]\<rparr>
           \<and> snd (get_temp_creds ext provider (snd (get_temp_creds ext provider s)))
               = s\<lparr>calls := calls s @ [HttpGet url [], HttpGet url []]\<rparr>"
proof -
  from lookup_some [OF assms] obtain url where u: "map_of s3_cred_endpoint provider = Some url"
    by blast
  have "(provider, url) \<in> set s3_cred_endpoint"
    using u by (rule map_of_SomeD)
  moreover have "\<forall>e. send_get ext (calls s) url = Inl e
                  \<longrightarrow> fst (get_temp_creds ext provider s) = Inl e"
    by (simp add: get_temp_creds_result [OF u])
  moreover have "\<forall>r. send_get ext (calls s) url = Inr r \<longrightarrow> json_loads ext (body r) = None
                  \<longrightarrow> fst (get_temp_creds ext provider s) = Inl JSONDecodeError"
    by (simp add: get_temp_creds_result [OF u] response_json_def)
  moreover have "\<forall>r j. send_get ext (calls s) url = Inr r \<longrightarrow> json_loads ext (body r) = Some j
                  \<longrightarrow> fst (get_temp_creds ext provider s) = Inr j"
    by (simp add: get_temp_creds_result [OF u] response_json_def)
  moreover have "snd (get_temp_creds ext provider s) = s\<lparr>calls := calls s @ [HttpGet url []]\<rparr>"
    by (rule get_temp_creds_state [OF u])
  moreover have "snd (get_temp_creds ext provider (snd (get_temp_creds ext provider s)))
               = s\<lparr>calls := calls s @ [HttpGet url [], HttpGet url []]\<rparr>"
    by (simp add: get_temp_creds_state [OF u])
  ultimately show ?thesis by blast
qed

lemma podaac_lookup:
  "map_of s3_cred_endpoint ''podaac''
     = Some ''https://archive.podaac.earthdata.nasa.gov/s3credentials''"
  by (simp add: s3_cred_endpoint_def)

theorem get_temp_creds_errors_propagate_witness:
  "fst (get_temp_creds html_ext ''lpdaac'' fresh_kernel) = Inl JSONDecodeError
   \<and> calls (snd (get_temp_creds html_ext ''lpdaac'' fresh_kernel)) = [HttpGet lpdaac_url []]
   \<and> fst (get_temp_creds demo_ext ''podaac'' fresh_kernel) = Inl (Raised ''ConnectionError'')
   \<and> fst (get_temp_creds denied_ext ''lpdaac'' fresh_kernel)
       = Inr (JObject [(''error'', JString ''access_denied'')])"
proof -
  from get_temp_creds_errors_propagate [of "''lpdaac''" html_ext fresh_kernel]
  obtain url where u: "(''lpdaac'', url) \<in> set s3_cred_endpoint"
    and d: "\<forall>r. send_get html_ext (calls (fresh_kernel :: int nb_state)) url = Inr r
              \<longrightarrow> json_loads html_ext (body r) = None
              \<longrightarrow> fst (get_temp_creds html_ext ''lpdaac'' fresh_kernel) = Inl JSONDecodeError"
    and c: "snd (get_temp_creds html_ext ''lpdaac'' fresh_kernel)
              = fresh_kernel\<lparr>calls := calls (fresh_kernel :: int nb_state) @ [HttpGet url []]\<rparr>"
    by auto
  have url: "url = lpdaac_url"
    using endpoint_url_unique [OF u] lookup_lpdaac by simp
  have g: "send_get html_ext (calls (fresh_kernel :: int nb_state)) url
             = Inr \<lparr>status_code = 200, body = ''<html>Earthdata Login</html>''\<rparr>"
    by (simp add: html_ext_def)
  have l: "json_loads html_ext ''<html>Earthdata Login</html>'' = None"
    by (simp add: html_ext_def demo_ext_def demo_loads_def demo_body_def denied_body_def)
  have malformed: "fst (get_temp_creds html_ext ''lpdaac'' fresh_kernel) = Inl JSONDecodeError"
    using d g l by simp
  have once: "calls (snd (get_temp_creds html_ext ''lpdaac'' fresh_kernel))
                = [HttpGet lpdaac_url []]"
    unfolding c url by (simp add: fresh_kernel_def)
  from get_temp_creds_errors_propagate [of "''podaac''" demo_ext fresh_kernel]
  obtain url' where u': "(''podaac'', url') \<in> set s3_cred_endpoint"
    and t: "\<forall>e. send_get demo_ext (calls (fresh_kernel :: int nb_state)) url' = Inl e
              \<longrightarrow> fst (get_temp_creds demo_ext ''podaac'' fresh_kernel) = Inl e"
    by auto
  have url': "url' = ''https://archive.podaac.earthdata.nasa.gov/s3credentials''"
    using endpoint_url_unique [OF u'] podaac_lookup by simp
  have "send_get demo_ext (calls (fresh_kernel :: int nb_state)) url'
          = Inl (Raised ''ConnectionError'')"
    by (simp add: url' demo_ext_def lpdaac_url_def)
  with t have transport:
    "fst (get_temp_creds demo_ext ''podaac'' fresh_kernel) = Inl (Raised ''ConnectionError'')"
    by simp
  from get_temp_creds_errors_propagate [of "''lpdaac''" denied_ext fresh_kernel]
  obtain url'' where u'': "(''lpdaac'', url'') \<in> set s3_cred_endpoint"
    and j: "\<forall>r j. send_get denied_ext (calls (fresh_kernel :: int nb_state)) url'' = Inr r
              \<longrightarrow> json_loads denied_ext (body r) = Some j
              \<longrightarrow> fst (get_temp_creds denied_ext ''lpdaac'' fresh_kernel) = Inr j"
    by auto
  have "send_get denied_ext (calls (fresh_kernel :: int nb_state)) url''
          = Inr \<lparr>status_code = 401, body = denied_body\<rparr>"
    by (simp add: denied_ext_def)
  moreover have "json_loads denied_ext (body \<lparr>status_code = 401, body = denied_body\<rparr>)
                   = Some (JObject [(''error'', JString ''access_denied'')])"
    by (simp add: denied_ext_def demo_ext_def demo_loads_def demo_body_def denied_body_def)
  ultimately have returned: "fst (get_temp_creds denied_ext ''lpdaac'' fresh_kernel)
       = Inr (JObject [(''error'', JString ''access_denied'')])"
    using j by simp
  from malformed once transport returned show ?thesis by simp
qed

section \<open>The cells and the run\<close>

lemma cell_creds_eq:
  "cell_creds ext s =
     (case send_get ext (calls s) lpdaac_url of
        Inl e \<Rightarrow> (Some e, s\<lparr>calls := calls s @ [HttpGet lpdaac_url []]\<rparr>)
      | Inr r \<Rightarrow>
          (case json_loads ext (body r) of
             None \<Rightarrow> (Some JSONDecodeError, s\<lparr>calls := calls s @ [HttpGet lpdaac_url []]\<rparr>)
           | Some j \<Rightarrow> (None, s\<lparr>calls := calls s @ [HttpGet lpdaac_url []],
                                 temp_creds_req := Some j\<rparr>)))"
  by (simp add: cell_creds_def get_temp_creds_def lookup_lpdaac requests_get_def
      response_json_def split: sum.split option.split)

lemmas cell_defs =
  cell_creds_eq cell_session_def cell_env_def cell_url_def cell_open_def cell_squeeze_def
  cell_plot_def cell_exit_def

text \<open>A cell that raises is the outcome of the run.\<close>

lemma run_cells_stops:
  "k < length cs \<Longrightarrow> fst (run_cells (take k cs) s) = None \<Longrightarrow>
   fst ((cs ! k) (snd (run_cells (take k cs) s))) = Some e \<Longrightarrow>
   run_cells cs s = (cs ! k) (snd (run_cells (take k cs) s))"
proof (induction cs arbitrary: k s)
  case Nil
  then show ?case by simp
next
  case (Cons c cs)
  show ?case
  proof (cases k)
    case 0
    with Cons.prems show ?thesis
      by (cases "c s") auto
  next
    case (Suc j)
    obtain r s1 where c: "c s = (r, s1)" by (cases "c s")
    show ?thesis
    proof (cases r)
      case None
      with Cons.prems Suc c Cons.IH [of j s1] show ?thesis by simp
    next
      case (Some e')
      with Cons.prems Suc c show ?thesis by simp
    qed
  qed
qed

lemma emits_nil: "emits (run_cells []) []"
  by (simp add: emits_def)

lemma emitsD:
  "emits c ks \<Longrightarrow>
   \<exists>t. calls (snd (c s)) = calls s @ t \<and> prefix (map step_of t) ks
       \<and> (fst (c s) = None \<longrightarrow> map step_of t = ks)"
  unfolding emits_def by (rule spec)

lemma emits_cons:
  assumes c: "emits c ks" and cs: "emits (run_cells cs) ks'"
  shows "emits (run_cells (c # cs)) (ks @ ks')"
  unfolding emits_def
proof
  fix s
  obtain r s1 where cs1: "c s = (r, s1)" by (cases "c s")
  from emitsD [OF c, of s] obtain t where t0: "calls (snd (c s)) = calls s @ t"
    "prefix (map step_of t) ks" "fst (c s) = None \<longrightarrow> map step_of t = ks"
    by (elim exE conjE)
  from t0 cs1 have t: "calls s1 = calls s @ t"
    "prefix (map step_of t) ks" "r = None \<longrightarrow> map step_of t = ks"
    by simp_all
  show "\<exists>t. calls (snd (run_cells (c # cs) s)) = calls s @ t
            \<and> prefix (map step_of t) (ks @ ks')
            \<and> (fst (run_cells (c # cs) s) = None \<longrightarrow> map step_of t = ks @ ks')"
  proof (cases r)
    case (Some e)
    have "calls (snd (run_cells (c # cs) s)) = calls s @ t"
      using Some cs1 t(1) by simp
    moreover have "prefix (map step_of t) (ks @ ks')"
      using t(2) by (rule prefix_prefix)
    moreover have "fst (run_cells (c # cs) s) = None \<longrightarrow> map step_of t = ks @ ks'"
      using Some cs1 by simp
    ultimately show ?thesis by (intro exI [of _ t] conjI)
  next
    case None
    from emitsD [OF cs, of s1] obtain t' where t': "calls (snd (run_cells cs s1)) = calls s1 @ t'"
      "prefix (map step_of t') ks'"
      "fst (run_cells cs s1) = None \<longrightarrow> map step_of t' = ks'"
      by (elim exE conjE)
    have "calls (snd (run_cells (c # cs) s)) = calls s @ (t @ t')"
      using None cs1 t(1) t'(1) by simp
    moreover have "prefix (map step_of (t @ t')) (ks @ ks')"
      using None t(3) t'(2) by simp
    moreover have "fst (run_cells (c # cs) s) = None \<longrightarrow> map step_of (t @ t') = ks @ ks'"
      using None cs1 t(3) t'(3) by simp
    ultimately show ?thesis by (intro exI [of _ "t @ t'"] conjI)
  qed
qed

lemma emits_creds: "emits (cell_creds ext) [CredentialFetch]"
  by (auto simp: emits_def cell_creds_eq split: sum.split option.split)

lemma emits_session: "emits cell_session [SessionBuild]"
  by (auto simp: emits_def cell_session_def Let_def split: sum.split option.split)

lemma emits_env: "emits (cell_env ext) [EnvConfigure]"
  by (auto simp: emits_def cell_env_def Let_def split: option.split)

lemma emits_url: "emits cell_url []"
  by (simp add: emits_def cell_url_def)

lemma emits_open: "emits (cell_open ext) [RasterRead]"
  by (auto simp: emits_def cell_open_def Let_def split: sum.split option.split)

lemma emits_squeeze: "emits cell_squeeze [DimReduce]"
  by (auto simp: emits_def cell_squeeze_def Let_def split: sum.split option.split)

lemma emits_plot: "emits (cell_plot ext) [Visualize]"
  by (auto simp: emits_def cell_plot_def Let_def split: option.split)

lemma emits_exit: "emits cell_exit [EnvRelease]"
  by (auto simp: emits_def cell_exit_def Let_def split: option.split)

lemma emits_workflow: "emits (workflow ext) all_steps"
proof -
  have "emits (run_cells (notebook ext))
          ([CredentialFetch] @ [SessionBuild] @ [EnvConfigure] @ [] @ [RasterRead]
           @ [DimReduce] @ [Visualize] @ [EnvRelease] @ [])"
    unfolding notebook_def
    by (intro emits_cons emits_nil emits_creds emits_session emits_env emits_url emits_open
        emits_squeeze emits_plot emits_exit)
  then show ?thesis by (simp add: workflow_def all_steps_def)
qed

lemma workflow_calls:
  "calls (snd (workflow ext s)) = calls s @ new_calls s (snd (workflow ext s))"
proof -
  from emitsD [OF emits_workflow, of ext s] obtain t
    where "calls (snd (workflow ext s)) = calls s @ t"
    by (elim exE conjE)
  then show ?thesis by (simp add: new_calls_def)
qed

lemma workflow_steps_prefix:
  "prefix (map step_of (new_calls s (snd (workflow ext s)))) all_steps"
proof -
  from emitsD [OF emits_workflow, of ext s] obtain t
    where "calls (snd (workflow ext s)) = calls s @ t"
      and "prefix (map step_of t) all_steps"
    by (elim exE conjE)
  then show ?thesis by (simp add: new_calls_def)
qed

lemma workflow_steps_complete:
  assumes ok: "fst (workflow ext s) = None"
  shows "map step_of (new_calls s (snd (workflow ext s))) = all_steps"
proof -
  from emitsD [OF emits_workflow, of ext s] obtain t
    where "calls (snd (workflow ext s)) = calls s @ t"
      and "fst (workflow ext s) = None \<longrightarrow> map step_of t = all_steps"
    by (elim exE conjE)
  with ok show ?thesis by (simp add: new_calls_def)
qed

subsection \<open>Triples for cells\<close>


lemma tripleD_ok:
  "triple P c Q E \<Longrightarrow> P s \<Longrightarrow> fst (c s) = None \<Longrightarrow> Q (snd (c s))"
  by (cases "c s") (auto simp: triple_def)

lemma tripleD_raise:
  "triple P c Q E \<Longrightarrow> P s \<Longrightarrow> fst (c s) = Some e \<Longrightarrow> E (snd (c s))"
  by (cases "c s") (auto simp: triple_def)

lemma tripleI:
  assumes "\<And>s s'. P s \<Longrightarrow> c s = (None, s') \<Longrightarrow> Q s'"
    and "\<And>s e s'. P s \<Longrightarrow> c s = (Some e, s') \<Longrightarrow> E s'"
  shows "triple P c Q E"
  unfolding triple_def using assms by (auto split: option.split)

lemma triple_cons:
  assumes c: "triple P c Q E" and cs: "triple Q (run_cells cs) R E"
  shows "triple P (run_cells (c # cs)) R E"
proof (rule tripleI)
  fix s s' assume P: "P s" and run: "run_cells (c # cs) s = (None, s')"
  obtain r s1 where c1: "c s = (r, s1)" by (cases "c s")
  with run have r: "r = None" and rest: "run_cells cs s1 = (None, s')"
    by (cases r; simp)+
  from tripleD_ok [OF c P] c1 r have "Q s1" by simp
  from tripleD_ok [OF cs this] rest show "R s'" by simp
next
  fix s e s' assume P: "P s" and run: "run_cells (c # cs) s = (Some e, s')"
  obtain r s1 where c1: "c s = (r, s1)" by (cases "c s")
  show "E s'"
  proof (cases r)
    case None
    from tripleD_ok [OF c P] c1 None have "Q s1" by simp
    moreover from run c1 None have "run_cells cs s1 = (Some e, s')" by simp
    ultimately show ?thesis using tripleD_raise [OF cs, of s1 e] by simp
  next
    case (Some e')
    with run c1 have "c s = (Some e, s')" by simp
    with tripleD_raise [OF c P, of e] show ?thesis by simp
  qed
qed

lemma triple_weaken:
  assumes "triple P c Q E" and "\<And>s. P' s \<Longrightarrow> P s" and "\<And>s. Q s \<Longrightarrow> Q' s"
    and "\<And>s. E s \<Longrightarrow> E' s"
  shows "triple P' c Q' E'"
proof (rule tripleI)
  fix s s' assume "P' s" "c s = (None, s')"
  with tripleD_ok [OF assms(1), of s] assms(2,3) show "Q' s'" by simp
next
  fix s e s' assume "P' s" "c s = (Some e, s')"
  with tripleD_raise [OF assms(1), of s e] assms(2,4) show "E' s'" by simp
qed


text \<open>An invariant kept by every cell, raising or not, is kept by the run.\<close>

lemma triple_invariant:
  "list_all (\<lambda>c. triple I c I I) cs \<Longrightarrow> triple I (run_cells cs) I I"
proof (induction cs)
  case Nil
  show ?case by (simp add: triple_def)
next
  case (Cons c cs)
  from Cons.prems have c: "triple I c I I" and "list_all (\<lambda>c. triple I c I I) cs"
    by simp_all
  from triple_cons [OF c Cons.IH [OF this(2)]] show ?case .
qed

lemma added_refl: "added g s0 s0"
  by (simp add: added_def)

lemma added_new_calls: "added g s0 s \<Longrightarrow> list_all g (new_calls s0 s)"
  by (auto simp: added_def new_calls_def)

lemma added_creds:
  "g (HttpGet lpdaac_url []) \<Longrightarrow> triple (added g s0) (cell_creds ext) (added g s0) (added g s0)"
  by (auto simp: triple_def added_def cell_creds_eq split: sum.split option.split)

lemma added_session:
  "(\<And>se. g (SessionNew se)) \<Longrightarrow> triple (added g s0) cell_session (added g s0) (added g s0)"
  by (auto simp: triple_def added_def cell_session_def Let_def split: sum.split option.split)

lemma added_env:
  "(\<And>se. g (EnvEnter \<lparr>env_session = se,
                 options = [(''GDAL_DISABLE_READDIR_ON_OPEN'', ''TRUE''),
                            (''GDAL_HTTP_COOKIEFILE'', cookie_path ext),
                            (''GDAL_HTTP_COOKIEJAR'', cookie_path ext)]\<rparr>)) \<Longrightarrow>
   triple (added g s0) (cell_env ext) (added g s0) (added g s0)"
  by (auto simp: triple_def added_def cell_env_def Let_def split: option.split)

lemma added_url: "triple (added g s0) cell_url (added g s0) (added g s0)"
  by (auto simp: triple_def added_def cell_url_def)

lemma added_open:
  "(\<And>u. g (RasterOpen u [])) \<Longrightarrow>
   triple (added g s0) (cell_open ext) (added g s0) (added g s0)"
  by (auto simp: triple_def added_def cell_open_def Let_def split: sum.split option.split)

lemma added_squeeze:
  "g (Squeeze ''band'' True) \<Longrightarrow> triple (added g s0) cell_squeeze (added g s0) (added g s0)"
  by (auto simp: triple_def added_def cell_squeeze_def Let_def split: sum.split option.split)

lemma added_plot:
  "(\<And>a. g (PlotImage \<lparr>plot_data = a, x_dim = ''x'', y_dim = ''y'', cmap = ''gray'',
                         aspect = ''equal''\<rparr>)) \<Longrightarrow>
   triple (added g s0) (cell_plot ext) (added g s0) (added g s0)"
  by (auto simp: triple_def added_def cell_plot_def Let_def split: option.split)

lemma added_exit:
  "g EnvExit \<Longrightarrow> triple (added g s0) cell_exit (added g s0) (added g s0)"
  by (auto simp: triple_def added_def cell_exit_def Let_def split: option.split)

text \<open>
  From the environment cell on an environment is active, so the exit cell of a run finds
  one to leave. The same invariant of the record of calls, with an active environment:
\<close>

lemma entered_env:
  "(\<And>se. g (EnvEnter \<lparr>env_session = se,
                 options = [(''GDAL_DISABLE_READDIR_ON_OPEN'', ''TRUE''),
                            (''GDAL_HTTP_COOKIEFILE'', cookie_path ext),
                            (''GDAL_HTTP_COOKIEJAR'', cookie_path ext)]\<rparr>)) \<Longrightarrow>
   triple (added g s0) (cell_env ext) (\<lambda>s. added g s0 s \<and> gdal_env s \<noteq> []) (added g s0)"
  by (auto simp: triple_def added_def cell_env_def Let_def split: option.split)

lemma entered_url:
  "triple (\<lambda>s. added g s0 s \<and> gdal_env s \<noteq> []) cell_url
     (\<lambda>s. added g s0 s \<and> gdal_env s \<noteq> []) (added g s0)"
  by (auto simp: triple_def added_def cell_url_def)

lemma entered_open:
  "(\<And>u. g (RasterOpen u [])) \<Longrightarrow>
   triple (\<lambda>s. added g s0 s \<and> gdal_env s \<noteq> []) (cell_open ext)
     (\<lambda>s. added g s0 s \<and> gdal_env s \<noteq> []) (added g s0)"
  by (auto simp: triple_def added_def cell_open_def Let_def split: sum.split option.split)

lemma entered_squeeze:
  "g (Squeeze ''band'' True) \<Longrightarrow>
   triple (\<lambda>s. added g s0 s \<and> gdal_env s \<noteq> []) cell_squeeze
     (\<lambda>s. added g s0 s \<and> gdal_env s \<noteq> []) (added g s0)"
  by (auto simp: triple_def added_def cell_squeeze_def Let_def split: sum.split option.split)

lemma entered_plot:
  "(\<And>a. g (PlotImage \<lparr>plot_data = a, x_dim = ''x'', y_dim = ''y'', cmap = ''gray'',
                         aspect = ''equal''\<rparr>)) \<Longrightarrow>
   triple (\<lambda>s. added g s0 s \<and> gdal_env s \<noteq> []) (cell_plot ext)
     (\<lambda>s. added g s0 s \<and> gdal_env s \<noteq> []) (added g s0)"
  by (auto simp: triple_def added_def cell_plot_def Let_def split: option.split)

lemma entered_exit:
  "triple (\<lambda>s. added g s0 s \<and> gdal_env s \<noteq> []) cell_exit (\<lambda>s. True) (added g s0)"
  by (auto simp: triple_def added_def cell_exit_def Let_def split: option.split)

lemma triple_end: "triple Q (run_cells []) Q E"
  by (simp add: triple_def)

lemma exit_only_on_success:
  assumes "fst (workflow ext s) = Some e"
  shows "EnvExit \<notin> set (new_calls s (snd (workflow ext s)))"
proof -
  let ?g = "\<lambda>ev :: 'a event. ev \<noteq> EnvExit"
  have "triple (added ?g s) (workflow ext) (\<lambda>s. True) (added ?g s)"
    unfolding workflow_def notebook_def
    by (rule triple_cons [OF added_creds
          triple_cons [OF added_session
          triple_cons [OF entered_env
          triple_cons [OF entered_url
          triple_cons [OF entered_open
          triple_cons [OF entered_squeeze
          triple_cons [OF entered_plot
          triple_cons [OF entered_exit triple_end]]]]]]]]) simp_all
  from tripleD_raise [OF this added_refl assms]
  have "list_all ?g (new_calls s (snd (workflow ext s)))"
    by (rule added_new_calls)
  then show ?thesis by (auto simp: list_all_iff)
qed

subsection \<open>Concrete runs\<close>

lemma squeeze_demo: "squeeze ''band'' True demo_array = Inr demo_red"
  by (simp add: squeeze_def demo_array_def demo_red_def)

lemma squeeze_two_band: "squeeze ''band'' True two_band_array = Inl ValueError"
  by (simp add: squeeze_def two_band_array_def)

lemma getitem_demo:
  "py_getitem demo_creds ''accessKeyId'' = Inr (JString ''ASIAEXAMPLE'')"
  "py_getitem demo_creds ''secretAccessKey'' = Inr (JString ''wJalrEXAMPLEKEY'')"
  "py_getitem demo_creds ''sessionToken'' = Inr (JString ''FwoGZXEXAMPLETOKEN'')"
  by (simp_all add: demo_creds_def)

lemma demo_services:
  "send_get demo_ext h lpdaac_url = Inr \<lparr>status_code = 200, body = demo_body\<rparr>"
  "json_loads demo_ext demo_body = Some demo_creds"
  "cookie_path demo_ext = ''/home/jovyan/cookies.txt''"
  "read_raster demo_ext h (e # es) u = Inr demo_array"
  "render demo_ext h rq = None"
  by (simp_all add: demo_ext_def demo_loads_def)

lemma unreadable_services:
  "send_get unreadable_ext h lpdaac_url = Inr \<lparr>status_code = 200, body = demo_body\<rparr>"
  "json_loads unreadable_ext demo_body = Some demo_creds"
  "cookie_path unreadable_ext = ''/home/jovyan/cookies.txt''"
  "read_raster unreadable_ext h e u = Inl (Raised ''RasterioIOError'')"
  by (simp_all add: unreadable_ext_def demo_services)

lemma two_band_services:
  "send_get two_band_ext h lpdaac_url = Inr \<lparr>status_code = 200, body = demo_body\<rparr>"
  "json_loads two_band_ext demo_body = Some demo_creds"
  "cookie_path two_band_ext = ''/home/jovyan/cookies.txt''"
  "read_raster two_band_ext h e u = Inr two_band_array"
  by (simp_all add: two_band_ext_def demo_services)

lemma demo_run:
  "workflow demo_ext fresh_kernel =
     (None, \<lparr>calls = demo_calls, gdal_env = [], temp_creds_req = Some demo_creds,
             session = Some demo_session, rio_env = Some demo_env_object,
             s3_url = Some red_band_url, da = Some demo_array, da_red = Some demo_red\<rparr>)"
  by (simp add: workflow_def notebook_def cell_defs Let_def fresh_kernel_def demo_services
      getitem_demo squeeze_demo demo_calls_def demo_session_def demo_env_def demo_plot_def
      demo_env_object_def)

lemma unreadable_run:
  "workflow unreadable_ext fresh_kernel =
     (Some (Raised ''RasterioIOError''),
      \<lparr>calls = take 4 demo_calls, gdal_env = [demo_env], temp_creds_req = Some demo_creds,
       session = Some demo_session, rio_env = Some demo_env_object,
       s3_url = Some red_band_url, da = None, da_red = None\<rparr>)"
  by (simp add: workflow_def notebook_def cell_defs Let_def fresh_kernel_def
      unreadable_services
      getitem_demo squeeze_demo demo_calls_def demo_session_def demo_env_def demo_plot_def
      demo_env_object_def)

lemma two_band_run:
  "workflow two_band_ext fresh_kernel =
     (Some ValueError,
      \<lparr>calls = take 5 demo_calls, gdal_env = [demo_env], temp_creds_req = Some demo_creds,
       session = Some demo_session, rio_env = Some demo_env_object,
       s3_url = Some red_band_url, da = Some two_band_array, da_red = None\<rparr>)"
  by (simp add: workflow_def notebook_def cell_defs Let_def fresh_kernel_def
      two_band_services
      getitem_demo squeeze_two_band demo_calls_def demo_session_def demo_env_def demo_plot_def
      demo_env_object_def)


section \<open>Order of the steps\<close>

lemma new_calls_fresh: "new_calls fresh_kernel s = calls s"
  by (simp add: new_calls_def fresh_kernel_def)

lemma step_of_release: "step_of ev = EnvRelease \<Longrightarrow> ev = EnvExit"
  by (cases ev) simp_all

lemma workflow_complete_iff:
  "fst (workflow ext s) = None
   \<longleftrightarrow> map step_of (new_calls s (snd (workflow ext s))) = all_steps"
proof
  assume "fst (workflow ext s) = None"
  then show "map step_of (new_calls s (snd (workflow ext s))) = all_steps"
    by (rule workflow_steps_complete)
next
  assume all: "map step_of (new_calls s (snd (workflow ext s))) = all_steps"
  have "EnvRelease \<in> set (map step_of (new_calls s (snd (workflow ext s))))"
    unfolding all by (simp add: all_steps_def)
  then obtain ev where "ev \<in> set (new_calls s (snd (workflow ext s)))"
    and "step_of ev = EnvRelease"
    by auto
  then have "EnvExit \<in> set (new_calls s (snd (workflow ext s)))"
    using step_of_release by auto
  with exit_only_on_success [of ext s] show "fst (workflow ext s) = None"
    by (cases "fst (workflow ext s)") auto
qed

text \<open>
  Claim C6. Whatever the services answer and whatever the state the run starts in, the
  calls a run adds are, step by step, an initial part of the one sequence credential
  fetch, session construction, environment configuration, raster open, dimension
  reduction, visualization, release: no step is skipped, repeated or reordered. The run
  completes exactly when it has gone through the whole sequence, and when a cell raises,
  the run ends there with that exception and the state that cell left: no later cell
  runs and nothing recovers.
\<close>

theorem workflow_strictly_forward:
  "calls (snd (workflow ext s)) = calls s @ new_calls s (snd (workflow ext s))
   \<and> prefix (map step_of (new_calls s (snd (workflow ext s)))) all_steps
   \<and> (fst (workflow ext s) = None
        \<longleftrightarrow> map step_of (new_calls s (snd (workflow ext s))) = all_steps)
   \<and> (\<forall>k e. k < length (notebook ext)
          \<longrightarrow> fst (run_cells (take k (notebook ext)) s) = None
          \<longrightarrow> fst ((notebook ext ! k) (snd (run_cells (take k (notebook ext)) s))) = Some e
          \<longrightarrow> workflow ext s = (notebook ext ! k) (snd (run_cells (take k (notebook ext)) s)))"
proof (intro conjI allI impI)
  show "calls (snd (workflow ext s)) = calls s @ new_calls s (snd (workflow ext s))"
    by (rule workflow_calls)
  show "prefix (map step_of (new_calls s (snd (workflow ext s)))) all_steps"
    by (rule workflow_steps_prefix)
  show "fst (workflow ext s) = None
        \<longleftrightarrow> map step_of (new_calls s (snd (workflow ext s))) = all_steps"
    by (rule workflow_complete_iff)
next
  fix k e
  assume "k < length (notebook ext)"
    and "fst (run_cells (take k (notebook ext)) s) = None"
    and "fst ((notebook ext ! k) (snd (run_cells (take k (notebook ext)) s))) = Some e"
  then show "workflow ext s = (notebook ext ! k) (snd (run_cells (take k (notebook ext)) s))"
    unfolding workflow_def by (rule run_cells_stops)
qed

lemma unreadable_setup:
  "run_cells (take 4 (notebook unreadable_ext)) fresh_kernel =
     (None, \<lparr>calls = take 3 demo_calls, gdal_env = [demo_env],
             temp_creds_req = Some demo_creds, session = Some demo_session,
             rio_env = Some demo_env_object, s3_url = Some red_band_url, da = None,
             da_red = None\<rparr>)"
  by (simp add: notebook_def cell_defs Let_def fresh_kernel_def unreadable_services
      getitem_demo demo_calls_def demo_session_def demo_env_def demo_env_object_def)

theorem workflow_strictly_forward_witness:
  "fst (workflow demo_ext fresh_kernel) = None
   \<and> map step_of (new_calls fresh_kernel (snd (workflow demo_ext fresh_kernel))) = all_steps
   \<and> workflow unreadable_ext fresh_kernel
       = (Some (Raised ''RasterioIOError''),
          snd (cell_open unreadable_ext
                 (snd (run_cells (take 4 (notebook unreadable_ext)) fresh_kernel))))
   \<and> map step_of (new_calls fresh_kernel (snd (workflow unreadable_ext fresh_kernel)))
       = [CredentialFetch, SessionBuild, EnvConfigure, RasterRead]"
proof -
  have ok: "fst (workflow demo_ext fresh_kernel) = None"
    by (simp add: demo_run)
  from workflow_strictly_forward [of demo_ext fresh_kernel] ok
  have a: "map step_of (new_calls fresh_kernel (snd (workflow demo_ext fresh_kernel))) = all_steps"
    by (elim conjE) simp
  have k: "4 < length (notebook unreadable_ext)" "notebook unreadable_ext ! 4 = cell_open unreadable_ext"
    by (simp_all add: notebook_def)
  have pre: "fst (run_cells (take 4 (notebook unreadable_ext)) fresh_kernel) = None"
    by (simp add: unreadable_setup)
  have raise: "(notebook unreadable_ext ! 4)
                 (snd (run_cells (take 4 (notebook unreadable_ext)) fresh_kernel))
               = (Some (Raised ''RasterioIOError''),
                  snd (cell_open unreadable_ext
                    (snd (run_cells (take 4 (notebook unreadable_ext)) fresh_kernel))))"
    unfolding k unreadable_setup
    by (simp add: cell_open_def Let_def unreadable_services)
  from workflow_strictly_forward [of unreadable_ext fresh_kernel] k(1) pre raise
  have b: "workflow unreadable_ext fresh_kernel
       = (Some (Raised ''RasterioIOError''),
          snd (cell_open unreadable_ext
                 (snd (run_cells (take 4 (notebook unreadable_ext)) fresh_kernel))))"
    by (elim conjE) simp
  have c: "map step_of (new_calls fresh_kernel (snd (workflow unreadable_ext fresh_kernel)))
       = [CredentialFetch, SessionBuild, EnvConfigure, RasterRead]"
    by (simp add: unreadable_run new_calls_fresh demo_calls_def)
  from ok a b c show ?thesis by simp
qed

section \<open>The scoped environment\<close>

lemma before_read_creds:
  "triple (no_read_yet s0) (cell_creds ext) (no_read_yet s0)
     (\<lambda>s. no_read_yet s0 s \<or> env_active s0 s)"
  by (auto simp: triple_def no_read_yet_def added_def cell_creds_eq
      split: sum.split option.split)

lemma before_read_session:
  "triple (no_read_yet s0) cell_session (no_read_yet s0)
     (\<lambda>s. no_read_yet s0 s \<or> env_active s0 s)"
  by (auto simp: triple_def no_read_yet_def added_def cell_session_def Let_def
      split: sum.split option.split)

lemma active_env:
  "triple (no_read_yet s0) (cell_env ext) (env_active s0)
     (\<lambda>s. no_read_yet s0 s \<or> env_active s0 s)"
  by (auto simp: triple_def no_read_yet_def cell_env_def env_active_def Let_def
      split: option.split)

lemma active_url:
  "triple (env_active s0) cell_url (env_active s0) (\<lambda>s. no_read_yet s0 s \<or> env_active s0 s)"
  by (simp add: triple_def cell_url_def env_active_def)

lemma active_open:
  "triple (env_active s0) (cell_open ext) (env_active s0)
     (\<lambda>s. no_read_yet s0 s \<or> env_active s0 s)"
  by (auto simp: triple_def cell_open_def env_active_def Let_def split: option.split sum.split)

lemma active_squeeze:
  "triple (env_active s0) cell_squeeze (env_active s0)
     (\<lambda>s. no_read_yet s0 s \<or> env_active s0 s)"
  by (auto simp: triple_def cell_squeeze_def env_active_def Let_def
      split: option.split sum.split)

lemma active_plot:
  "triple (env_active s0) (cell_plot ext) (env_active s0)
     (\<lambda>s. no_read_yet s0 s \<or> env_active s0 s)"
  by (auto simp: triple_def cell_plot_def env_active_def Let_def split: option.split)

text \<open>Leaving restores what the object saved: the environments of the start state.\<close>

lemma active_exit:
  "triple (env_active s0) cell_exit (\<lambda>s. gdal_env s = gdal_env s0)
     (\<lambda>s. no_read_yet s0 s \<or> env_active s0 s)"
  by (auto simp: triple_def cell_exit_def env_active_def Let_def split: option.split)

lemma workflow_env_triple:
  "triple (no_read_yet s0) (workflow ext) (\<lambda>s. gdal_env s = gdal_env s0)
     (\<lambda>s. no_read_yet s0 s \<or> env_active s0 s)"
  unfolding workflow_def notebook_def
  by (rule triple_cons [OF before_read_creds
        triple_cons [OF before_read_session
        triple_cons [OF active_env
        triple_cons [OF active_url
        triple_cons [OF active_open
        triple_cons [OF active_squeeze
        triple_cons [OF active_plot
        triple_cons [OF active_exit triple_end]]]]]]]])

lemma no_read_yet_refl: "no_read_yet s s"
  by (simp add: no_read_yet_def added_refl)

lemma leak_after_read:
  assumes raise: "fst (workflow ext s) = Some e"
    and reached: "RasterRead \<in> set (map step_of (new_calls s (snd (workflow ext s))))"
  shows "env_active s (snd (workflow ext s))"
proof -
  from tripleD_raise [OF workflow_env_triple no_read_yet_refl raise]
  have "no_read_yet s (snd (workflow ext s)) \<or> env_active s (snd (workflow ext s))" .
  moreover have "\<not> no_read_yet s (snd (workflow ext s))"
  proof
    assume "no_read_yet s (snd (workflow ext s))"
    then have "added (\<lambda>ev. step_of ev \<noteq> RasterRead) s (snd (workflow ext s))"
      by (simp add: no_read_yet_def)
    then have "list_all (\<lambda>ev. step_of ev \<noteq> RasterRead) (new_calls s (snd (workflow ext s)))"
      by (rule added_new_calls)
    with reached show False by (auto simp: list_all_iff)
  qed
  ultimately show ?thesis by simp
qed

lemma restored_on_success:
  assumes "fst (workflow ext s) = None"
  shows "gdal_env (snd (workflow ext s)) = gdal_env s"
  using tripleD_ok [OF workflow_env_triple no_read_yet_refl assms] .

text \<open>No cell but the last removes an environment: each keeps the active ones, and the
  environment cell puts one more over them.\<close>

lemma only_exit_releases:
  "c \<in> set (butlast (notebook ext)) \<Longrightarrow> suffix (gdal_env s) (gdal_env (snd (c s)))"
  by (auto simp: notebook_def cell_defs Let_def suffix_Cons split: option.split sum.split)

lemma exit_on_success:
  assumes "fst (workflow ext s) = None"
  shows "EnvExit \<in> set (new_calls s (snd (workflow ext s)))"
proof -
  have "EnvRelease \<in> set (map step_of (new_calls s (snd (workflow ext s))))"
    unfolding workflow_steps_complete [OF assms] by (simp add: all_steps_def)
  then obtain ev where "ev \<in> set (new_calls s (snd (workflow ext s)))"
    and "step_of ev = EnvRelease"
    by auto
  then show ?thesis
    using step_of_release by auto
qed

text \<open>
  Claim C2. The environment is left by the exit cell alone: it is the last cell of the
  notebook, and no other cell removes an active environment, raising or not. A run that
  completes has executed the exit call and ends with the environments it started with:
  its own is released. A run that raises has not executed the exit call; and when the
  exception comes from the raster open or from a later step, the environment the
  notebook entered is still active at the end, over the environments of the start: it
  leaks.
\<close>

theorem environment_leaks_on_exception:
  "last (notebook ext) = cell_exit
   \<and> (\<forall>c \<in> set (butlast (notebook ext)). \<forall>s0 :: 'v nb_state.
         suffix (gdal_env s0) (gdal_env (snd (c s0))))
   \<and> (fst (workflow ext s) = None
        \<longrightarrow> EnvExit \<in> set (new_calls s (snd (workflow ext s)))
            \<and> gdal_env (snd (workflow ext s)) = gdal_env s)
   \<and> (\<forall>e. fst (workflow ext s) = Some e
          \<longrightarrow> EnvExit \<notin> set (new_calls s (snd (workflow ext s))))
   \<and> (\<forall>e. fst (workflow ext s) = Some e
          \<longrightarrow> RasterRead \<in> set (map step_of (new_calls s (snd (workflow ext s))))
          \<longrightarrow> (\<exists>obj. rio_env (snd (workflow ext s)) = Some obj
                 \<and> env_saved obj = gdal_env s
                 \<and> gdal_env (snd (workflow ext s)) = env_config obj # gdal_env s))"
proof (intro conjI ballI allI impI)
  show "last (notebook ext) = cell_exit"
    by (simp add: notebook_def)
next
  fix c and s0 :: "'v nb_state"
  assume "c \<in> set (butlast (notebook ext))"
  then show "suffix (gdal_env s0) (gdal_env (snd (c s0)))"
    by (rule only_exit_releases)
next
  assume "fst (workflow ext s) = None"
  then show "EnvExit \<in> set (new_calls s (snd (workflow ext s)))"
    by (rule exit_on_success)
next
  assume "fst (workflow ext s) = None"
  then show "gdal_env (snd (workflow ext s)) = gdal_env s"
    by (rule restored_on_success)
next
  fix e assume "fst (workflow ext s) = Some e"
  then show "EnvExit \<notin> set (new_calls s (snd (workflow ext s)))"
    by (rule exit_only_on_success)
next
  fix e
  assume "fst (workflow ext s) = Some e"
    and "RasterRead \<in> set (map step_of (new_calls s (snd (workflow ext s))))"
  then have "env_active s (snd (workflow ext s))"
    by (rule leak_after_read)
  then show "\<exists>obj. rio_env (snd (workflow ext s)) = Some obj
                 \<and> env_saved obj = gdal_env s
                 \<and> gdal_env (snd (workflow ext s)) = env_config obj # gdal_env s"
    by (simp add: env_active_def)
qed

text \<open>A second run, started in the state the failed one left, with services that work.\<close>

lemma leaked_rerun: "fst (workflow demo_ext leaked_kernel) = None"
  by (simp add: workflow_def notebook_def cell_defs Let_def leaked_kernel_def demo_services
      getitem_demo squeeze_demo)

theorem environment_leaks_on_exception_witness:
  "fst (workflow unreadable_ext fresh_kernel) = Some (Raised ''RasterioIOError'')
   \<and> EnvExit \<notin> set (calls (snd (workflow unreadable_ext fresh_kernel)))
   \<and> gdal_env (snd (workflow unreadable_ext fresh_kernel)) = [demo_env]
   \<and> snd (workflow unreadable_ext fresh_kernel) = leaked_kernel
   \<and> fst (workflow two_band_ext fresh_kernel) = Some ValueError
   \<and> gdal_env (snd (workflow two_band_ext fresh_kernel)) = [demo_env]
   \<and> fst (workflow demo_ext fresh_kernel) = None
   \<and> gdal_env (snd (workflow demo_ext fresh_kernel)) = []
   \<and> fst (workflow demo_ext leaked_kernel) = None
   \<and> gdal_env (snd (workflow demo_ext leaked_kernel)) = [demo_env]"
proof -
  have r1: "fst (workflow unreadable_ext fresh_kernel) = Some (Raised ''RasterioIOError'')"
    by (simp add: unreadable_run)
  have s1: "RasterRead \<in> set (map step_of
              (new_calls fresh_kernel (snd (workflow unreadable_ext fresh_kernel))))"
    by (simp add: unreadable_run new_calls_fresh demo_calls_def)
  have r2: "fst (workflow two_band_ext fresh_kernel) = Some ValueError"
    by (simp add: two_band_run)
  have s2: "RasterRead \<in> set (map step_of
              (new_calls fresh_kernel (snd (workflow two_band_ext fresh_kernel))))"
    by (simp add: two_band_run new_calls_fresh demo_calls_def)
  have r3: "fst (workflow demo_ext fresh_kernel) = None"
    by (simp add: demo_run)
  note r4 = leaked_rerun
  have f: "gdal_env (fresh_kernel :: int nb_state) = []"
    by (simp add: fresh_kernel_def)
  from environment_leaks_on_exception [of unreadable_ext fresh_kernel] r1 s1
  obtain obj where a: "EnvExit \<notin> set (new_calls fresh_kernel (snd (workflow unreadable_ext fresh_kernel)))"
    and o: "rio_env (snd (workflow unreadable_ext fresh_kernel)) = Some obj"
    and b: "gdal_env (snd (workflow unreadable_ext fresh_kernel))
            = env_config obj # gdal_env (fresh_kernel :: int nb_state)"
    by (elim conjE) auto
  from o have "obj = demo_env_object"
    by (simp add: unreadable_run)
  with b f have b': "gdal_env (snd (workflow unreadable_ext fresh_kernel)) = [demo_env]"
    by (simp add: demo_env_object_def)
  from environment_leaks_on_exception [of two_band_ext fresh_kernel] r2 s2
  obtain obj2 where o2: "rio_env (snd (workflow two_band_ext fresh_kernel)) = Some obj2"
    and c: "gdal_env (snd (workflow two_band_ext fresh_kernel))
            = env_config obj2 # gdal_env (fresh_kernel :: int nb_state)"
    by (elim conjE) auto
  from o2 have "obj2 = demo_env_object"
    by (simp add: two_band_run)
  with c f have c': "gdal_env (snd (workflow two_band_ext fresh_kernel)) = [demo_env]"
    by (simp add: demo_env_object_def)
  from environment_leaks_on_exception [of demo_ext fresh_kernel] r3 f
  have d: "gdal_env (snd (workflow demo_ext fresh_kernel)) = []"
    by (elim conjE) simp
  from environment_leaks_on_exception [of demo_ext leaked_kernel] r4
  have e: "gdal_env (snd (workflow demo_ext leaked_kernel)) = [demo_env]"
    by (elim conjE) (simp add: leaked_kernel_def)
  have l: "snd (workflow unreadable_ext fresh_kernel) = leaked_kernel"
    by (simp add: unreadable_run leaked_kernel_def)
  from a b' c' d e l r1 r2 r3 r4 show ?thesis
    by (simp add: new_calls_fresh)
qed

section \<open>The session handle\<close>

lemma creds_bound:
  assumes "send_get ext (calls s0) lpdaac_url = Inr r" and "json_loads ext (body r) = Some c"
  shows "triple (\<lambda>s. s = s0) (cell_creds ext) (\<lambda>s. temp_creds_req s = Some c) E"
  using assms by (simp add: triple_def cell_creds_eq)

lemma session_bound:
  assumes "py_getitem c ''accessKeyId'' = Inr k"
    and "py_getitem c ''secretAccessKey'' = Inr sk"
    and "py_getitem c ''sessionToken'' = Inr tok"
  shows "triple (\<lambda>s. temp_creds_req s = Some c) cell_session
           (\<lambda>s. session s = Some \<lparr>aws_access_key_id = k, aws_secret_access_key = sk,
                                    aws_session_token = tok, region_name = ''us-west-2''\<rparr>) E"
  using assms by (simp add: triple_def cell_session_def Let_def)

text \<open>Every cell after the session cell leaves the variable \<open>session\<close> alone.\<close>

lemma session_untouched:
  "c \<in> set (drop 2 (notebook ext)) \<Longrightarrow> session (snd (c s)) = session s"
  by (auto simp: notebook_def cell_defs Let_def split: option.split sum.split)

lemma session_kept:
  assumes "c \<in> set (drop 2 (notebook ext))"
  shows "triple (\<lambda>s. session s = Some se) c (\<lambda>s. session s = Some se)
           (\<lambda>s. session s = Some se)"
proof (rule tripleI)
  fix s s' assume "session s = Some se" "c s = (None, s')"
  with session_untouched [OF assms, of s] show "session s' = Some se" by simp
next
  fix s e s' assume "session s = Some se" "c s = (Some e, s')"
  with session_untouched [OF assms, of s] show "session s' = Some se" by simp
qed

lemma workflow_session:
  assumes "send_get ext (calls s0) lpdaac_url = Inr r" and "json_loads ext (body r) = Some c"
    and "py_getitem c ''accessKeyId'' = Inr k"
    and "py_getitem c ''secretAccessKey'' = Inr sk"
    and "py_getitem c ''sessionToken'' = Inr tok"
  shows "triple (\<lambda>s. s = s0) (workflow ext)
           (\<lambda>s. session s = Some \<lparr>aws_access_key_id = k, aws_secret_access_key = sk,
                                    aws_session_token = tok, region_name = ''us-west-2''\<rparr>)
           (\<lambda>s. session s = Some \<lparr>aws_access_key_id = k, aws_secret_access_key = sk,
                                    aws_session_token = tok, region_name = ''us-west-2''\<rparr>)"
proof -
  let ?se = "\<lparr>aws_access_key_id = k, aws_secret_access_key = sk,
              aws_session_token = tok, region_name = ''us-west-2''\<rparr>"
  let ?I = "\<lambda>s :: 'a nb_state. session s = Some ?se"
  have "list_all (\<lambda>c. triple ?I c ?I ?I) (drop 2 (notebook ext))"
    unfolding list_all_iff by (intro ballI session_kept)
  then have rest: "triple ?I (run_cells (drop 2 (notebook ext))) ?I ?I"
    by (rule triple_invariant)
  have "triple (\<lambda>s. s = s0) (run_cells (cell_creds ext # cell_session # drop 2 (notebook ext)))
          ?I ?I"
    by (rule triple_cons [OF creds_bound [OF assms(1,2)]
          triple_cons [OF session_bound [OF assms(3-5)] rest]])
  then show ?thesis by (simp add: workflow_def notebook_def)
qed

text \<open>
  Claim C5. When the endpoint answers and the answer decodes to a value with the three
  fields, the variable \<open>session\<close> holds, at the end of every run (completed or
  stopped by an exception of a later cell), the handle made of these three fields and
  the region \<^verbatim>\<open>us-west-2\<close>: nothing else of the credential object goes into it, and no
  cell after the session cell changes it.
\<close>

theorem session_from_three_fields:
  assumes "send_get ext (calls s) lpdaac_url = Inr r" and "json_loads ext (body r) = Some c"
    and "py_getitem c ''accessKeyId'' = Inr k"
    and "py_getitem c ''secretAccessKey'' = Inr sk"
    and "py_getitem c ''sessionToken'' = Inr tok"
  shows "session (snd (workflow ext s))
           = Some \<lparr>aws_access_key_id = k, aws_secret_access_key = sk,
                    aws_session_token = tok, region_name = ''us-west-2''\<rparr>
         \<and> (\<forall>cl \<in> set (drop 2 (notebook ext)). \<forall>s0 :: 'v nb_state.
               session (snd (cl s0)) = session s0)"
proof
  note w = workflow_session [OF assms]
  show "session (snd (workflow ext s))
           = Some \<lparr>aws_access_key_id = k, aws_secret_access_key = sk,
                    aws_session_token = tok, region_name = ''us-west-2''\<rparr>"
  proof (cases "fst (workflow ext s)")
    case None
    from tripleD_ok [OF w _ None] show ?thesis by simp
  next
    case (Some e)
    from tripleD_raise [OF w _ Some] show ?thesis by simp
  qed
  show "\<forall>cl \<in> set (drop 2 (notebook ext)). \<forall>s0 :: 'v nb_state.
          session (snd (cl s0)) = session s0"
    by (intro ballI allI session_untouched)
qed

lemma demo_decodes:
  "json_loads demo_ext (body \<lparr>status_code = 200, body = demo_body\<rparr>) = Some demo_creds"
  "json_loads unreadable_ext (body \<lparr>status_code = 200, body = demo_body\<rparr>) = Some demo_creds"
  "json_loads two_band_ext (body \<lparr>status_code = 200, body = demo_body\<rparr>) = Some demo_creds"
  by (simp_all add: demo_services unreadable_services two_band_services)

theorem session_from_three_fields_witness:
  "session (snd (workflow demo_ext fresh_kernel)) = Some demo_session
   \<and> session (snd (workflow unreadable_ext fresh_kernel)) = Some demo_session
   \<and> session (snd (cell_open unreadable_ext
                       (snd (run_cells (take 4 (notebook unreadable_ext)) fresh_kernel))))
       = Some demo_session"
proof -
  have a: "session (snd (workflow demo_ext fresh_kernel)) = Some demo_session"
    using session_from_three_fields [OF demo_services(1) demo_decodes(1) getitem_demo, of fresh_kernel]
    by (simp add: demo_session_def)
  from session_from_three_fields [OF unreadable_services(1) demo_decodes(2) getitem_demo, of fresh_kernel]
  have b: "session (snd (workflow unreadable_ext fresh_kernel)) = Some demo_session"
    and keep: "\<forall>cl \<in> set (drop 2 (notebook unreadable_ext)). \<forall>s0 :: int nb_state.
                 session (snd (cl s0)) = session s0"
    by (simp_all add: demo_session_def)
  have "cell_open unreadable_ext \<in> set (drop 2 (notebook unreadable_ext))"
    by (simp add: notebook_def)
  with keep have "session (snd (cell_open unreadable_ext
                       (snd (run_cells (take 4 (notebook unreadable_ext)) fresh_kernel))))
       = session (snd (run_cells (take 4 (notebook unreadable_ext)) fresh_kernel))"
    by (elim ballE [where x = "cell_open unreadable_ext"]) simp_all
  then have c: "session (snd (cell_open unreadable_ext
                       (snd (run_cells (take 4 (notebook unreadable_ext)) fresh_kernel))))
       = Some demo_session"
    by (simp add: unreadable_setup)
  from a b c show ?thesis by simp
qed


section \<open>Dimension reduction\<close>

lemma singleton_axis:
  assumes "has_shape (Suc 0 # ns) d"
  obtains slice where "d = Axis [slice]" and "has_shape ns slice"
proof (cases d)
  case (Cell v)
  with assms show ?thesis by simp
next
  case (Axis xs)
  with assms have "length xs = 1" and all: "\<forall>x \<in> set xs. has_shape ns x"
    by simp_all
  then obtain slice where "xs = [slice]"
    by (cases xs) auto
  with Axis all that show ?thesis by simp
qed

lemma squeeze_band:
  assumes d: "dims a = (''band'', 1) # rest"
    and nb: "''band'' \<notin> fst ` set rest"
    and sh: "has_shape (1 # map snd rest) (data a)"
  obtains slice where "data a = Axis [slice]" and "has_shape (map snd rest) slice"
    and "squeeze ''band'' True a =
           Inr (a\<lparr>dims := rest, data := slice,
                  coords := squeeze_coords ''band'' True (coords a)\<rparr>)"
proof -
  from sh have "has_shape (Suc 0 # map snd rest) (data a)" by simp
  then obtain slice where s: "data a = Axis [slice]" "has_shape (map snd rest) slice"
    by (rule singleton_axis)
  from nb have "\<forall>p \<in> set rest. fst p \<noteq> ''band''"
    by force
  then have "filter (\<lambda>p. fst p \<noteq> ''band'') rest = rest"
    by (rule filter_True)
  then have "squeeze ''band'' True a =
           Inr (a\<lparr>dims := rest, data := slice,
                  coords := squeeze_coords ''band'' True (coords a)\<rparr>)"
    by (simp add: squeeze_def d s)
  with s that show ?thesis by simp
qed

lemma cell_squeeze_outcome:
  "da s = Some a \<Longrightarrow>
   fst (cell_squeeze s) = (case squeeze ''band'' True a of Inl e \<Rightarrow> Some e | Inr r \<Rightarrow> None)"
  by (simp add: cell_squeeze_def Let_def split: sum.split)

lemma cell_squeeze_binds:
  "da s = Some a \<Longrightarrow> squeeze ''band'' True a = Inr red \<Longrightarrow>
   cell_squeeze s = (None, s\<lparr>calls := calls s @ [Squeeze ''band'' True], da_red := Some red\<rparr>)"
  by (simp add: cell_squeeze_def Let_def)

text \<open>
  Claim C3. Take a labeled array whose first dimension is \<open>band\<close>, of size 1, followed
  by the dimensions \<open>rest\<close> (for a 3-D array, x and y in the reader's order, so both
  (band, x, y) and (band, y, x) are covered). Then \<^verbatim>\<open>squeeze('band', drop=True)\<close> returns
  an array with exactly the dimensions \<open>rest\<close> and their sizes, whose values are the one
  band slice of the input, cell for cell; and the notebook's step, run in a state where
  \<open>da\<close> holds the array, returns normally, records the one call and binds that array
  to \<open>da_red\<close>, changing nothing else. For the other sizes the claim promises nothing;
  the step checks nothing itself: its outcome is the outcome of \<^verbatim>\<open>squeeze\<close> on whatever
  array \<open>da\<close> holds.
\<close>

theorem squeeze_singleton_band:
  assumes "dims a = (''band'', 1) # rest"
    and "''band'' \<notin> fst ` set rest"
    and "has_shape (1 # map snd rest) (data a)"
  shows "(\<exists>red. squeeze ''band'' True a = Inr red
            \<and> dims red = rest
            \<and> has_shape (map snd rest) (data red)
            \<and> data a = Axis [data red]
            \<and> (\<forall>idx. cell_at (data red) idx = cell_at (data a) (0 # idx))
            \<and> (\<forall>s. da s = Some a
                  \<longrightarrow> cell_squeeze s
                      = (None, s\<lparr>calls := calls s @ [Squeeze ''band'' True],
                                  da_red := Some red\<rparr>)))
         \<and> (\<forall>s b. da s = Some b
               \<longrightarrow> fst (cell_squeeze s)
                   = (case squeeze ''band'' True b of Inl e \<Rightarrow> Some e | Inr r \<Rightarrow> None))"
proof
  from assms obtain slice where s: "data a = Axis [slice]" "has_shape (map snd rest) slice"
    and q: "squeeze ''band'' True a =
           Inr (a\<lparr>dims := rest, data := slice,
                  coords := squeeze_coords ''band'' True (coords a)\<rparr>)"
    by (rule squeeze_band)
  let ?red = "a\<lparr>dims := rest, data := slice,
                coords := squeeze_coords ''band'' True (coords a)\<rparr>"
  have c: "\<forall>idx. cell_at (data ?red) idx = cell_at (data a) (0 # idx)"
    by (simp add: s)
  have b: "\<forall>s. da s = Some a
              \<longrightarrow> cell_squeeze s
                  = (None, s\<lparr>calls := calls s @ [Squeeze ''band'' True], da_red := Some ?red\<rparr>)"
    using q by (intro allI impI cell_squeeze_binds)
  from s q c b show "\<exists>red. squeeze ''band'' True a = Inr red
            \<and> dims red = rest
            \<and> has_shape (map snd rest) (data red)
            \<and> data a = Axis [data red]
            \<and> (\<forall>idx. cell_at (data red) idx = cell_at (data a) (0 # idx))
            \<and> (\<forall>s. da s = Some a
                  \<longrightarrow> cell_squeeze s
                      = (None, s\<lparr>calls := calls s @ [Squeeze ''band'' True],
                                  da_red := Some red\<rparr>))"
    by (intro exI [of _ ?red] conjI) simp_all
  show "\<forall>s b. da s = Some b
               \<longrightarrow> fst (cell_squeeze s)
                   = (case squeeze ''band'' True b of Inl e \<Rightarrow> Some e | Inr r \<Rightarrow> None)"
    by (intro allI impI cell_squeeze_outcome)
qed

lemma demo_array_shape:
  "dims demo_array = (''band'', 1) # [(''x'', 2), (''y'', 3)]"
  "''band'' \<notin> fst ` set [(''x'', 2 :: nat), (''y'', 3)]"
  "has_shape (1 # map snd [(''x'', 2 :: nat), (''y'', 3)]) (data demo_array)"
  by (simp_all add: demo_array_def)

lemma yx_array_shape:
  "dims yx_array = (''band'', 1) # [(''y'', 3), (''x'', 2)]"
  "''band'' \<notin> fst ` set [(''y'', 3 :: nat), (''x'', 2)]"
  "has_shape (1 # map snd [(''y'', 3 :: nat), (''x'', 2)]) (data yx_array)"
  by (simp_all add: yx_array_def)

lemma squeeze_yx: "squeeze ''band'' True yx_array = Inr yx_red"
  by (simp add: squeeze_def yx_array_def yx_red_def)

theorem squeeze_singleton_band_witness:
  "squeeze ''band'' True yx_array = Inr yx_red
   \<and> dims yx_red = [(''y'', 3), (''x'', 2)]
   \<and> data yx_array = Axis [data yx_red]
   \<and> cell_at (data yx_red) [2, 1] = cell_at (data yx_array) [0, 2, 1]
   \<and> cell_at (data yx_red) [2, 1] = Some 23
   \<and> cell_squeeze (fresh_kernel\<lparr>da := Some yx_array\<rparr>)
       = (None, fresh_kernel\<lparr>calls := [Squeeze ''band'' True], da := Some yx_array,
                             da_red := Some yx_red\<rparr>)
   \<and> squeeze ''band'' True demo_array = Inr demo_red
   \<and> dims demo_red = [(''x'', 2), (''y'', 3)]
   \<and> fst (cell_squeeze (fresh_kernel\<lparr>da := Some two_band_array\<rparr>)) = Some ValueError"
proof -
  from squeeze_singleton_band [OF yx_array_shape]
  obtain red where r: "squeeze ''band'' True yx_array = Inr red"
    and dm: "dims red = [(''y'', 3), (''x'', 2)]"
    and d: "data yx_array = Axis [data red]"
    and c: "\<forall>idx. cell_at (data red) idx = cell_at (data yx_array) (0 # idx)"
    and b: "\<forall>s :: int nb_state. da s = Some yx_array
              \<longrightarrow> cell_squeeze s
                  = (None, s\<lparr>calls := calls s @ [Squeeze ''band'' True], da_red := Some red\<rparr>)"
    and w: "\<forall>s b. da s = Some b
               \<longrightarrow> fst (cell_squeeze s)
                   = (case squeeze ''band'' True b of Inl e \<Rightarrow> Some e
                      | Inr (r :: int dataarray) \<Rightarrow> None)"
    by (elim conjE exE)
  from r have red: "red = yx_red"
    by (simp add: squeeze_yx)
  have "da (fresh_kernel\<lparr>da := Some yx_array\<rparr>) = Some yx_array"
    by simp
  with b have bound: "cell_squeeze (fresh_kernel\<lparr>da := Some yx_array\<rparr>)
       = (None, fresh_kernel\<lparr>calls := [Squeeze ''band'' True], da := Some yx_array,
                             da_red := Some yx_red\<rparr>)"
    by (elim allE [where x = "fresh_kernel\<lparr>da := Some yx_array\<rparr>"])
      (simp add: red fresh_kernel_def)
  from squeeze_singleton_band [OF demo_array_shape]
  obtain red' where r': "squeeze ''band'' True demo_array = Inr red'"
    and dm': "dims red' = [(''x'', 2), (''y'', 3)]"
    by (elim conjE exE)
  from r' have red': "red' = demo_red"
    by (simp add: squeeze_demo)
  have "da (fresh_kernel\<lparr>da := Some two_band_array\<rparr>) = Some two_band_array"
    by simp
  with w have "fst (cell_squeeze (fresh_kernel\<lparr>da := Some two_band_array\<rparr>))
                 = (case squeeze ''band'' True two_band_array of Inl e \<Rightarrow> Some e
                    | Inr r \<Rightarrow> None)"
    by (elim allE [where x = "fresh_kernel\<lparr>da := Some two_band_array\<rparr>"]
        allE [where x = two_band_array]) simp
  then have v: "fst (cell_squeeze (fresh_kernel\<lparr>da := Some two_band_array\<rparr>)) = Some ValueError"
    by (simp add: squeeze_two_band)
  have "cell_at (data yx_red) [2, 1] = Some 23"
    by (simp add: yx_red_def)
  with r dm d c bound r' dm' v show ?thesis
    by (simp add: red red')
qed

section \<open>The whole run on valid inputs\<close>


















section \<open>The visualizer\<close>

text \<open>
  Claim C8. The plot cell asks the backend for an image of the array \<open>da_red\<close> with x
  and y as the axes, the colormap \<^verbatim>\<open>gray\<close> and the aspect \<^verbatim>\<open>equal\<close>; its outcome is the
  backend's. It changes nothing but the record of calls, to which it adds this one
  request: the array and every other variable are as before.
\<close>

theorem plot_is_presentation_only:
  assumes "da_red s = Some a"
  shows "fst (cell_plot ext s)
           = render ext (calls s)
               \<lparr>plot_data = a, x_dim = ''x'', y_dim = ''y'', cmap = ''gray'', aspect = ''equal''\<rparr>
         \<and> snd (cell_plot ext s)
           = s\<lparr>calls := calls s @
                 [PlotImage \<lparr>plot_data = a, x_dim = ''x'', y_dim = ''y'', cmap = ''gray'',
                             aspect = ''equal''\<rparr>]\<rparr>
         \<and> da_red (snd (cell_plot ext s)) = Some a"
  using assms by (simp add: cell_plot_def Let_def)

theorem plot_is_presentation_only_witness:
  "fst (cell_plot demo_ext (fresh_kernel\<lparr>da_red := Some demo_red\<rparr>)) = None
   \<and> calls (snd (cell_plot demo_ext (fresh_kernel\<lparr>da_red := Some demo_red\<rparr>)))
       = [PlotImage demo_plot]
   \<and> da_red (snd (cell_plot demo_ext (fresh_kernel\<lparr>da_red := Some demo_red\<rparr>)))
       = Some demo_red"
proof -
  have "da_red (fresh_kernel\<lparr>da_red := Some demo_red\<rparr> :: int nb_state) = Some demo_red"
    by simp
  from plot_is_presentation_only [OF this, of demo_ext]
  show ?thesis
    by (simp add: demo_services demo_plot_def fresh_kernel_def)
qed

section \<open>Timeouts\<close>

lemma workflow_untimed:
  "list_all untimed (new_calls s (snd (workflow ext s)))"
proof -
  have "triple (added untimed s) (workflow ext) (added untimed s) (added untimed s)"
    unfolding workflow_def
    by (rule triple_invariant)
      (simp add: notebook_def added_creds added_session added_env added_url added_open
        added_squeeze added_plot added_exit)
  then have "added untimed s (snd (workflow ext s))"
    by (cases "fst (workflow ext s)")
      (auto dest: tripleD_ok [OF _ added_refl] tripleD_raise [OF _ added_refl])
  then show ?thesis by (rule added_new_calls)
qed

text \<open>
  Claim C9. In every run, each call that goes to the network is issued without any
  keyword argument: the credential GET passes the URL alone (no \<^verbatim>\<open>timeout\<close>), and so
  does the raster open; the environment sets the three options of the notebook and no
  timeout option. No call carries a handle through which it could be cancelled.
\<close>

theorem no_timeout_on_network_calls:
  "(\<forall>u kw. HttpGet u kw \<in> set (new_calls s (snd (workflow ext s))) \<longrightarrow> kw = [])
   \<and> (\<forall>u kw. RasterOpen u kw \<in> set (new_calls s (snd (workflow ext s))) \<longrightarrow> kw = [])
   \<and> (\<forall>e. EnvEnter e \<in> set (new_calls s (snd (workflow ext s)))
          \<longrightarrow> map fst (options e)
              = [''GDAL_DISABLE_READDIR_ON_OPEN'', ''GDAL_HTTP_COOKIEFILE'',
                 ''GDAL_HTTP_COOKIEJAR''])"
proof -
  have u: "\<And>ev. ev \<in> set (new_calls s (snd (workflow ext s))) \<Longrightarrow> untimed ev"
    using workflow_untimed [of s ext] by (simp add: list_all_iff)
  show ?thesis
  proof (intro conjI allI impI)
    fix u kw assume "HttpGet u kw \<in> set (new_calls s (snd (workflow ext s)))"
    from u [OF this] show "kw = []" by simp
  next
    fix u kw assume "RasterOpen u kw \<in> set (new_calls s (snd (workflow ext s)))"
    from u [OF this] show "kw = []" by simp
  next
    fix e assume "EnvEnter e \<in> set (new_calls s (snd (workflow ext s)))"
    from u [OF this] show "map fst (options e)
              = [''GDAL_DISABLE_READDIR_ON_OPEN'', ''GDAL_HTTP_COOKIEFILE'',
                 ''GDAL_HTTP_COOKIEJAR'']" by simp
  qed
qed

theorem no_timeout_on_network_calls_witness:
  "HttpGet lpdaac_url [] \<in> set (new_calls fresh_kernel (snd (workflow demo_ext fresh_kernel)))
   \<and> RasterOpen red_band_url [] \<in> set (new_calls fresh_kernel (snd (workflow demo_ext fresh_kernel)))
   \<and> EnvEnter demo_env \<in> set (new_calls fresh_kernel (snd (workflow demo_ext fresh_kernel)))
   \<and> map fst (options demo_env)
       = [''GDAL_DISABLE_READDIR_ON_OPEN'', ''GDAL_HTTP_COOKIEFILE'', ''GDAL_HTTP_COOKIEJAR'']
   \<and> ''timeout'' \<notin> set (map fst (options demo_env))"
proof -
  have m: "HttpGet lpdaac_url [] \<in> set (new_calls fresh_kernel (snd (workflow demo_ext fresh_kernel)))"
    "RasterOpen red_band_url [] \<in> set (new_calls fresh_kernel (snd (workflow demo_ext fresh_kernel)))"
    "EnvEnter demo_env \<in> set (new_calls fresh_kernel (snd (workflow demo_ext fresh_kernel)))"
    by (simp_all add: demo_run new_calls_fresh demo_calls_def)
  from no_timeout_on_network_calls [of fresh_kernel demo_ext] m(3)
  have o: "map fst (options demo_env)
       = [''GDAL_DISABLE_READDIR_ON_OPEN'', ''GDAL_HTTP_COOKIEFILE'', ''GDAL_HTTP_COOKIEJAR'']"
    by (elim conjE allE [where x = demo_env]) simp
  then have "''timeout'' \<notin> set (map fst (options demo_env))"
    by simp
  with m o show ?thesis by simp
qed

end
